theory Spec2Isabelle
  imports Complex_Main
begin

section \<open>Values shared by the scanner and the Git utilities\<close>

text \<open>
  A \<open>Date\<close> is a valid JavaScript time value: the integer number of milliseconds since
  the epoch that \<open>getTime()\<close> returns. The source divides a difference of two time values
  by \<open>1000 * 60 * 60 * 24\<close> and compares the quotient with 7 and 30; the quotient is taken
  here as an exact real number. For integer time values in the range of \<open>Date\<close> the
  rounded double quotient and the exact one fall on the same side of 7 and of 30.
\<close>

type_synonym Date = int

datatype ProjectStatus = Active | Stale | Clean | Dirty | Unknown

record GitInfo =
  branch :: string
  isDirty :: bool
  uncommittedChanges :: nat
  aheadBy :: nat
  behindBy :: nat
  lastCommitDate :: "Date option"
  lastCommitMessage :: "string option"

record Project =
  id' :: string
  name :: string
  path :: string
  description :: "string option"
  status :: ProjectStatus
  lastModified :: Date
  hasPackageJson :: bool
  hasReadme :: bool
  gitInfo :: "GitInfo option"
  tags :: "string list"

text \<open>
  The field \<open>id\<close> of a project is written \<open>id'\<close>, and a variable that would carry the
  name of a field is written with a prime.
\<close>

text \<open>
  A rejected promise or a thrown value. The source reads a message off a thrown value with
  \<open>error instanceof Error ? error.message : 'Unknown error'\<close>, so a thrown value is either
  an \<open>Error\<close> carrying its message or something else. An \<open>outcome\<close> is what awaiting a
  promise gives: \<open>Inl\<close> for a throw, \<open>Inr\<close> for the value. \<open>Promise.all\<close> resolves to
  the list of the values when every promise resolves and rejects otherwise; of several
  rejections the first in list order is taken here, and no theorem depends on which one
  it is.
\<close>

datatype thrown = Error string | NonError

type_synonym 'a outcome = "thrown + 'a"

definition errorMessage :: "thrown \<Rightarrow> string" where
  "errorMessage error = (case error of Error message \<Rightarrow> message | NonError \<Rightarrow> ''Unknown error'')"

definition await :: "'a outcome \<Rightarrow> ('a \<Rightarrow> 'b outcome) \<Rightarrow> 'b outcome" where
  "await p k = (case p of Inl error \<Rightarrow> Inl error | Inr v \<Rightarrow> k v)"

definition try_catch :: "'a outcome \<Rightarrow> (thrown \<Rightarrow> 'a outcome) \<Rightarrow> 'a outcome" where
  "try_catch body handler = (case body of Inl error \<Rightarrow> handler error | Inr v \<Rightarrow> Inr v)"

fun Promise_all :: "'a outcome list \<Rightarrow> 'a list outcome" where
  "Promise_all [] = Inr []"
| "Promise_all (p # ps) =
     (case p of
        Inl error \<Rightarrow> Inl error
      | Inr v \<Rightarrow> (case Promise_all ps of Inl error \<Rightarrow> Inl error | Inr vs \<Rightarrow> Inr (v # vs)))"

definition startsWith :: "string \<Rightarrow> string \<Rightarrow> bool" where
  "startsWith s p = (take (length p) s = p)"

definition endsWith :: "string \<Rightarrow> string \<Rightarrow> bool" where
  "endsWith s p = (length p \<le> length s \<and> drop (length s - length p) s = p)"

section \<open>git-utils.ts: status classification\<close>

definition msPerDay :: int where
  "msPerDay = 1000 * 60 * 60 * 24"

text \<open>
  \<open>determineProjectStatus(gitInfo, lastModified)\<close>. Each branch of the source reads the
  clock once with \<open>new Date()\<close>; that reading is the first argument \<open>now\<close>.
\<close>

definition determineProjectStatus :: "Date \<Rightarrow> GitInfo option \<Rightarrow> Date \<Rightarrow> ProjectStatus" where
  "determineProjectStatus now gitInfo' lastModified' =
     (case gitInfo' of
        Some gi \<Rightarrow>
          if isDirty gi then Dirty
          else
            let referenceDate = (case lastCommitDate gi of Some d \<Rightarrow> d | None \<Rightarrow> lastModified');
                daysSinceActivity = real_of_int (now - referenceDate) / real_of_int msPerDay
            in if daysSinceActivity \<le> 7 then Active
               else if daysSinceActivity > 30 then Stale
               else Clean
      | None \<Rightarrow>
          let daysSinceModified = real_of_int (now - lastModified') / real_of_int msPerDay
          in if daysSinceModified \<le> 7 then Active
             else if daysSinceModified > 30 then Stale
             else Unknown)"

subsection \<open>The classification as the specification words it\<close>

definition daysSince :: "Date \<Rightarrow> Date \<Rightarrow> real" where
  "daysSince now d = real_of_int (now - d) / 86400000"

definition classify_absent :: "Date \<Rightarrow> Date \<Rightarrow> ProjectStatus" where
  "classify_absent lastModified' now =
     (if daysSince now lastModified' \<le> 7 then Active
      else if daysSince now lastModified' > 30 then Stale
      else Unknown)"

definition classify_present :: "GitInfo \<Rightarrow> Date \<Rightarrow> Date \<Rightarrow> ProjectStatus" where
  "classify_present repoInfo lastModified' now =
     (if isDirty repoInfo then Dirty
      else
        let reference = (case lastCommitDate repoInfo of Some c \<Rightarrow> c | None \<Rightarrow> lastModified')
        in if daysSince now reference \<le> 7 then Active
           else if daysSince now reference > 30 then Stale
           else Clean)"

definition classify :: "GitInfo option \<Rightarrow> Date \<Rightarrow> Date \<Rightarrow> ProjectStatus" where
  "classify repoInfo lastModified' now =
     (case repoInfo of
        None \<Rightarrow> classify_absent lastModified' now
      | Some r \<Rightarrow> classify_present r lastModified' now)"

section \<open>git-utils.ts: repository introspection\<close>

text \<open>
  The part of the \<open>simple-git\<close> library the source calls, as results per path:
  \<open>simpleGit(projectPath)\<close> followed by \<open>checkIsRepo()\<close>, \<open>status()\<close>,
  \<open>log({ maxCount: 1 })\<close> and \<open>getRemotes(true)\<close>. Each of them can throw. A commit
  date arrives as text and the source turns it into a \<open>Date\<close> with \<open>new Date(text)\<close>,
  here \<open>Date_parse\<close>.
\<close>

record StatusResult =
  current :: "string option"
  isClean :: bool
  files :: "string list"
  ahead :: nat
  behind :: nat

record LogEntry =
  date :: string
  message :: string

record LogResult =
  latest :: "LogEntry option"

record RemoteWithRefs =
  remote_name :: string
  fetch :: string
  push :: string

record SimpleGit =
  checkIsRepo :: "string \<Rightarrow> bool outcome"
  git_status :: "string \<Rightarrow> StatusResult outcome"
  git_log :: "string \<Rightarrow> LogResult outcome"
  getRemotes :: "string \<Rightarrow> RemoteWithRefs list outcome"
  Date_parse :: "string \<Rightarrow> Date"

datatype GetGitStatusResult = GitStatusResult GitInfo | GitStatusError string

definition Promise_all2 :: "'a outcome \<Rightarrow> 'b outcome \<Rightarrow> ('a \<times> 'b) outcome" where
  "Promise_all2 p q =
     (case p of
        Inl error \<Rightarrow> Inl error
      | Inr v \<Rightarrow> (case q of Inl error \<Rightarrow> Inl error | Inr w \<Rightarrow> Inr (v, w)))"

definition getGitStatus :: "SimpleGit \<Rightarrow> string \<Rightarrow> GetGitStatusResult outcome" where
  "getGitStatus git projectPath =
     try_catch
       (await (checkIsRepo git projectPath) (\<lambda>isRepo.
          if \<not> isRepo then Inr (GitStatusError ''Not a Git repository'')
          else
            await (Promise_all2 (git_status git projectPath) (git_log git projectPath))
              (\<lambda>(status', log).
                 let lastCommit = latest log;
                     lastCommitDate' =
                       (case lastCommit of
                          Some c \<Rightarrow> if date c \<noteq> [] then Some (Date_parse git (date c)) else None
                        | None \<Rightarrow> None);
                     lastCommitMessage' = map_option message lastCommit
                 in Inr (GitStatusResult
                      \<lparr>branch = (case current status' of
                                   Some b \<Rightarrow> if b \<noteq> [] then b else ''HEAD''
                                 | None \<Rightarrow> ''HEAD''),
                       isDirty = \<not> isClean status',
                       uncommittedChanges = length (files status'),
                       aheadBy = ahead status',
                       behindBy = behind status',
                       lastCommitDate = lastCommitDate',
                       lastCommitMessage = lastCommitMessage'\<rparr>))))
       (\<lambda>error. Inr (GitStatusError (''Failed to get Git status: '' @ errorMessage error)))"

section \<open>git-utils.ts: the enrichment pass\<close>

text \<open>
  The callback that \<open>enrichProjectsWithGitInfo\<close> maps over the projects. After the status
  lookup of a record resolves, the source reads the clock twice for that record: once for
  the \<open>new Date()\<close> it passes as the second argument of \<open>determineProjectStatus\<close>, and
  once inside \<open>determineProjectStatus\<close>. The two readings are the pair \<open>clk\<close>
  (argument first), and the pass takes the readings of the record at position \<open>i\<close>
  from \<open>clock i\<close>.
\<close>

definition enrichProject :: "SimpleGit \<Rightarrow> Date \<times> Date \<Rightarrow> Project \<Rightarrow> Project outcome" where
  "enrichProject git clk project =
     await (getGitStatus git (path project)) (\<lambda>result.
       case result of
         GitStatusResult gi \<Rightarrow>
           let status' = determineProjectStatus (snd clk) (Some gi) (fst clk)
           in Inr (project\<lparr>gitInfo := Some gi, status := status'\<rparr>)
       | GitStatusError _ \<Rightarrow> Inr project)"

definition enrichProjectsWithGitInfo ::
  "SimpleGit \<Rightarrow> (nat \<Rightarrow> Date \<times> Date) \<Rightarrow> Project list \<Rightarrow> Project list outcome" where
  "enrichProjectsWithGitInfo git clock projects =
     Promise_all (map (\<lambda>(i, project). enrichProject git (clock i) project) (enumerate 0 projects))"

section \<open>project-scanner.ts: project identifiers\<close>

text \<open>
  \<open>createProjectId(name)\<close> lower-cases the name and applies three replacements:
  \<open>/[^a-z0-9-_]/g\<close> by \<open>'-'\<close>, \<open>/-+/g\<close> by \<open>'-'\<close> and \<open>/^-|-$/g\<close> by the empty
  string. A string is a list of code units; \<open>toLowerCase\<close> is given on the letters
  \<open>A\<close> to \<open>Z\<close> and leaves every other unit of this character type as it is (the second
  step replaces each of those by \<open>'-'\<close> in either case).
\<close>

definition upperCaseLetters :: string where
  "upperCaseLetters = ''ABCDEFGHIJKLMNOPQRSTUVWXYZ''"

definition lowerCaseLetters :: string where
  "lowerCaseLetters = ''abcdefghijklmnopqrstuvwxyz''"

definition toLowerCase :: "string \<Rightarrow> string" where
  "toLowerCase s =
     map (\<lambda>c. case map_of (zip upperCaseLetters lowerCaseLetters) c of Some l \<Rightarrow> l | None \<Rightarrow> c) s"

definition idChars :: string where
  "idChars = ''abcdefghijklmnopqrstuvwxyz0123456789-_''"

definition replaceNonIdChars :: "string \<Rightarrow> string" where
  "replaceNonIdChars s = map (\<lambda>c. if c \<in> set idChars then c else CHR ''-'') s"

fun collapseDashes :: "string \<Rightarrow> string" where
  "collapseDashes (a # b # cs) =
     (if a = CHR ''-'' \<and> b = CHR ''-'' then collapseDashes (b # cs)
      else a # collapseDashes (b # cs))"
| "collapseDashes cs = cs"

definition trimDashes :: "string \<Rightarrow> string" where
  "trimDashes s =
     (let s1 = (if s \<noteq> [] \<and> hd s = CHR ''-'' then tl s else s)
      in if s1 \<noteq> [] \<and> last s1 = CHR ''-'' then butlast s1 else s1)"

definition createProjectId :: "string \<Rightarrow> string" where
  "createProjectId name' = trimDashes (collapseDashes (replaceNonIdChars (toLowerCase name')))"



section \<open>project-scanner.ts: the file system\<close>

text \<open>
  The calls the scanner makes into \<open>fs/promises\<close> and \<open>path\<close>, as results per path:
  \<open>stat\<close>, \<open>readdir(path, { withFileTypes: true })\<close>, \<open>access\<close> and
  \<open>readFile(path, 'utf-8')\<close> can throw; \<open>path_join\<close> is \<open>join\<close> of two segments.
  \<open>JSON_description content\<close> is \<open>JSON.parse(content).description\<close>, and
  \<open>JSON_tags content\<close> is \<open>JSON.parse(content)\<close> in tag-storage.ts, whose file is
  \<open>TAGS_FILE\<close>: \<open>None\<close> when the parsed value is \<open>null\<close>, and otherwise the value
  read as a table from project identifiers to tag lists (a key that the value does not
  have is a key without entry).
\<close>

datatype Stats = Stats (stats_isDirectory: bool) (mtime: Date)

datatype Dirent = Dirent (entry_name: string) (entry_isDirectory: bool)

record FileSystem =
  stat :: "string \<Rightarrow> Stats outcome"
  readdir :: "string \<Rightarrow> Dirent list outcome"
  access :: "string \<Rightarrow> unit outcome"
  readFile :: "string \<Rightarrow> string outcome"
  path_join :: "string \<Rightarrow> string \<Rightarrow> string"
  JSON_description :: "string \<Rightarrow> string option outcome"
  JSON_tags :: "string \<Rightarrow> (string \<rightharpoonup> string list) option outcome"
  TAGS_FILE :: string

definition IGNORED_DIRECTORIES :: "string set" where
  "IGNORED_DIRECTORIES =
     {''node_modules'', ''.git'', ''.next'', ''.cache'', ''.pnpm'', ''dist'', ''build'',
      ''coverage'', ''__pycache__'', ''.venv'', ''venv'', ''.idea'', ''.vscode''}"

datatype ScanResult = ProjectScanResult Project | ProjectScanError string string

record ScanOptions =
  maxDepth :: "nat option"
  includeHidden :: "bool option"

definition fileExists :: "FileSystem \<Rightarrow> string \<Rightarrow> bool outcome" where
  "fileExists fs filePath =
     try_catch (await (access fs filePath) (\<lambda>_. Inr True)) (\<lambda>_. Inr False)"

definition projectIndicators :: "string list" where
  "projectIndicators =
     [''package.json'', ''.git'', ''README.md'', ''README.txt'', ''README'', ''pyproject.toml'',
      ''Cargo.toml'', ''go.mod'', ''pom.xml'', ''build.gradle'', ''Makefile'']"

definition isProjectDirectory :: "FileSystem \<Rightarrow> string \<Rightarrow> bool outcome" where
  "isProjectDirectory fs dirPath =
     await (Promise_all (map (\<lambda>indicator. fileExists fs (path_join fs dirPath indicator))
                          projectIndicators))
       (\<lambda>checks. Inr (list_ex (\<lambda>exists. exists) checks))"

text \<open>\<open>determineInitialStatus(lastModified)\<close>; \<open>now\<close> is its reading of the clock.\<close>

definition determineInitialStatus :: "Date \<Rightarrow> Date \<Rightarrow> ProjectStatus" where
  "determineInitialStatus now lastModified' =
     (let daysSinceModified = real_of_int (now - lastModified') / real_of_int msPerDay
      in if daysSinceModified \<le> 7 then Active
         else if daysSinceModified \<le> 30 then Unknown
         else Stale)"

definition getProjectDescription :: "FileSystem \<Rightarrow> string \<Rightarrow> string option outcome" where
  "getProjectDescription fs dirPath =
     (let packageJsonPath = path_join fs dirPath ''package.json''
      in try_catch
           (await (fileExists fs packageJsonPath) (\<lambda>hasPackageJson'.
              if \<not> hasPackageJson' then Inr None
              else await (readFile fs packageJsonPath) (\<lambda>content. JSON_description fs content)))
           (\<lambda>_. Inr None))"

text \<open>
  tag-storage.ts: \<open>loadProjectTags\<close> and \<open>getProjectTags\<close>. \<open>loadProjectTags\<close>
  returns what \<open>JSON.parse\<close> gives, also when that is \<open>null\<close>, and the empty table
  when reading or parsing throws. \<open>getProjectTags\<close> evaluates
  \<open>allTags[projectId] || []\<close> outside any \<open>try\<close>: on \<open>null\<close> the property access throws
  a \<open>TypeError\<close>, an \<open>Error\<close> whose message names the key.
\<close>

definition loadProjectTags :: "FileSystem \<Rightarrow> (string \<rightharpoonup> string list) option outcome" where
  "loadProjectTags fs =
     try_catch (await (readFile fs (TAGS_FILE fs)) (\<lambda>content. JSON_tags fs content))
       (\<lambda>error. Inr (Some Map.empty))"

definition nullPropertyMessage :: "string \<Rightarrow> string" where
  "nullPropertyMessage key =
     ''Cannot read properties of null (reading '' @ [CHR 0x27] @ key @ [CHR 0x27] @ '')''"

definition getProjectTags :: "FileSystem \<Rightarrow> string \<Rightarrow> string list outcome" where
  "getProjectTags fs projectId =
     await (loadProjectTags fs) (\<lambda>allTags.
       case allTags of
         None \<Rightarrow> Inl (Error (nullPropertyMessage projectId))
       | Some table \<Rightarrow> Inr (case table projectId of Some ts \<Rightarrow> ts | None \<Rightarrow> []))"

definition Promise_all3 :: "'a outcome \<Rightarrow> 'b outcome \<Rightarrow> 'c outcome \<Rightarrow> ('a \<times> 'b \<times> 'c) outcome" where
  "Promise_all3 p q r =
     (case p of
        Inl error \<Rightarrow> Inl error
      | Inr u \<Rightarrow> (case Promise_all2 q r of Inl error \<Rightarrow> Inl error | Inr vw \<Rightarrow> Inr (u, vw)))"

section \<open>project-scanner.ts: scanning\<close>

definition scanProject :: "FileSystem \<Rightarrow> Date \<Rightarrow> string \<Rightarrow> string \<Rightarrow> Project outcome" where
  "scanProject fs now dirPath name' =
     await (stat fs dirPath) (\<lambda>stats.
       let projectId = createProjectId name'
       in await (Promise_all [fileExists fs (path_join fs dirPath ''README.md''),
                              fileExists fs (path_join fs dirPath ''README.txt''),
                              fileExists fs (path_join fs dirPath ''README'')])
            (\<lambda>readmeChecks.
               let hasReadmeFile = list_ex (\<lambda>exists. exists) readmeChecks
               in await (Promise_all3 (fileExists fs (path_join fs dirPath ''package.json''))
                                      (getProjectDescription fs dirPath)
                                      (getProjectTags fs projectId))
                    (\<lambda>(hasPackageJson', description', tags').
                       Inr \<lparr>id' = projectId,
                            name = name',
                            path = dirPath,
                            description = description',
                            status = determineInitialStatus now (mtime stats),
                            lastModified = mtime stats,
                            hasPackageJson = hasPackageJson',
                            hasReadme = hasReadmeFile,
                            gitInfo = None,
                            tags = tags'\<rparr>)))"

text \<open>
  The filter of \<open>scanDirectory\<close> over the directory entries, and the callback it maps
  over the entries that remain; \<open>now\<close> is the clock reading made while that entry is
  scanned, which \<open>scanDirectory\<close> takes from \<open>clock i\<close> for the entry at position
  \<open>i\<close> of the filtered listing.
\<close>

definition isScannedEntry :: "bool \<Rightarrow> Dirent \<Rightarrow> bool" where
  "isScannedEntry includeHidden' entry =
     (if \<not> entry_isDirectory entry then False
      else if entry_name entry \<in> IGNORED_DIRECTORIES then False
      else if \<not> includeHidden' \<and> startsWith (entry_name entry) ''.'' then False
      else True)"

definition scanEntry :: "FileSystem \<Rightarrow> Date \<Rightarrow> string \<Rightarrow> Dirent \<Rightarrow> ScanResult outcome" where
  "scanEntry fs now projectsPath dir =
     (let fullPath = path_join fs projectsPath (entry_name dir)
      in try_catch
           (await (isProjectDirectory fs fullPath) (\<lambda>isProject.
              if \<not> isProject then
                await (scanProject fs now fullPath (entry_name dir)) (\<lambda>project.
                  Inr (ProjectScanResult (project\<lparr>status := Unknown\<rparr>)))
              else
                await (scanProject fs now fullPath (entry_name dir)) (\<lambda>project.
                  Inr (ProjectScanResult project))))
           (\<lambda>error. Inr (ProjectScanError (''Failed to scan project: '' @ errorMessage error) fullPath)))"

definition scanDirectory ::
  "FileSystem \<Rightarrow> (nat \<Rightarrow> Date) \<Rightarrow> string \<Rightarrow> ScanOptions \<Rightarrow> ScanResult list outcome" where
  "scanDirectory fs clock projectsPath options =
     (let includeHidden' = (case includeHidden options of Some b \<Rightarrow> b | None \<Rightarrow> False)
      in case stat fs projectsPath of
           Inl error \<Rightarrow>
             Inr [ProjectScanError (''Cannot access directory: '' @ errorMessage error) projectsPath]
         | Inr stats \<Rightarrow>
             if \<not> stats_isDirectory stats then
               Inr [ProjectScanError (''Path is not a directory: '' @ projectsPath) projectsPath]
             else
               (case readdir fs projectsPath of
                  Inl error \<Rightarrow>
                    Inr [ProjectScanError (''Failed to read directory: '' @ errorMessage error) projectsPath]
                | Inr entries \<Rightarrow>
                    let directories = filter (isScannedEntry includeHidden') entries
                    in Promise_all (map (\<lambda>(i, dir). scanEntry fs (clock i) projectsPath dir)
                                      (enumerate 0 directories))))"

definition filterSuccessfulScans :: "ScanResult list \<Rightarrow> Project list" where
  "filterSuccessfulScans results =
     concat (map (\<lambda>r. case r of ProjectScanResult project \<Rightarrow> [project] | ProjectScanError _ _ \<Rightarrow> []) results)"

definition filterScanErrors :: "ScanResult list \<Rightarrow> ScanResult list" where
  "filterScanErrors results =
     filter (\<lambda>r. case r of ProjectScanResult _ \<Rightarrow> False | ProjectScanError _ _ \<Rightarrow> True) results"

section \<open>What the scanner theorems speak about\<close>

text \<open>The path a scan result belongs to: the path of its record, or the path of its error.\<close>

definition result_path :: "ScanResult \<Rightarrow> string" where
  "result_path r = (case r of ProjectScanResult project \<Rightarrow> path project | ProjectScanError _ p \<Rightarrow> p)"

text \<open>
  The retained children in the words of C9: a directory, whose name is not one of
  the thirteen ignored names, and which is not hidden unless hidden directories are asked
  for.
\<close>

definition retained :: "bool \<Rightarrow> Dirent \<Rightarrow> bool" where
  "retained hidden_included entry =
     (entry_isDirectory entry
      \<and> entry_name entry \<notin> {''node_modules'', ''.git'', ''.next'', ''.cache'', ''.pnpm'', ''dist'',
            ''build'', ''coverage'', ''__pycache__'', ''.venv'', ''venv'', ''.idea'', ''.vscode''}
      \<and> (hidden_included \<or> take 1 (entry_name entry) \<noteq> ''.''))"

text \<open>
  The root cannot be scanned: it cannot be accessed, it is not a directory, or its
  listing cannot be read.
\<close>

definition rootUnusable :: "FileSystem \<Rightarrow> string \<Rightarrow> bool" where
  "rootUnusable fs projectsPath =
     (case stat fs projectsPath of
        Inl _ \<Rightarrow> True
      | Inr stats \<Rightarrow>
          \<not> stats_isDirectory stats
          \<or> (case readdir fs projectsPath of Inl _ \<Rightarrow> True | Inr _ \<Rightarrow> False))"

section \<open>A concrete projects directory\<close>

text \<open>
  The directory \<open>/projects\<close> lists three project directories, an ignored directory, a
  hidden directory and a file. \<open>proj-a\<close> has a \<open>package.json\<close> and was modified 2 days
  before \<open>ex_start\<close>; \<open>proj-b\<close> has none of the indicator files and was modified 40
  days before; \<open>stat\<close> on \<open>locked\<close> fails with a permission error. \<open>/sealed\<close> is a
  directory whose listing cannot be read, and nothing else exists.
\<close>

definition ex_fs :: FileSystem where
  "ex_fs =
     \<lparr>stat = (\<lambda>p. if p = ''/projects'' then Inr (Stats True 1699900000000)
                  else if p = ''/projects/proj-a'' then Inr (Stats True 1699827200000)
                  else if p = ''/projects/proj-b'' then Inr (Stats True 1696544000000)
                  else if p = ''/projects/locked'' then Inl (Error ''EACCES: permission denied'')
                  else if p = ''/projects/notes.txt'' then Inr (Stats False 1699900000000)
                  else if p = ''/sealed'' then Inr (Stats True 1699900000000)
                  else Inl (Error ''ENOENT: no such file or directory'')),
      readdir = (\<lambda>p. if p = ''/projects''
                     then Inr [Dirent ''proj-a'' True, Dirent ''proj-b'' True, Dirent ''locked'' True,
                               Dirent ''node_modules'' True, Dirent ''.config'' True,
                               Dirent ''notes.txt'' False]
                     else Inl (Error ''EACCES: permission denied'')),
      access = (\<lambda>p. if p = ''/projects/proj-a/package.json'' then Inr ()
                    else Inl (Error ''ENOENT: no such file or directory'')),
      readFile = (\<lambda>p. if p = ''/projects/proj-a/package.json'' then Inr ''{}''
                      else Inl (Error ''ENOENT: no such file or directory'')),
      path_join = (\<lambda>a b. a @ ''/'' @ b),
      JSON_description = (\<lambda>content. Inr None),
      JSON_tags = (\<lambda>content. Inr (Some Map.empty)),
      TAGS_FILE = ''/home/dev/.organizeme/project-tags.json''\<rparr>"

text \<open>The same directory with a tags file that holds \<open>null\<close>.\<close>

definition ex_null_tags_fs :: FileSystem where
  "ex_null_tags_fs =
     ex_fs\<lparr>readFile := (\<lambda>p. if p = ''/home/dev/.organizeme/project-tags.json'' then Inr ''null''
                            else readFile ex_fs p),
           JSON_tags := (\<lambda>content. if content = ''null'' then Inr None else Inr (Some Map.empty))\<rparr>"

definition ex_options :: ScanOptions where
  "ex_options = \<lparr>maxDepth = None, includeHidden = None\<rparr>"

definition ex_scan_clock :: "nat \<Rightarrow> Date" where
  "ex_scan_clock i = 1700000000000 + int i"

definition ex_directories :: "Dirent list" where
  "ex_directories = [Dirent ''proj-a'' True, Dirent ''proj-b'' True, Dirent ''locked'' True]"

text \<open>
  Repository introspection for \<open>/projects\<close>: only \<open>proj-a\<close> is a repository; its working
  tree is clean and its last commit was made 2 days before \<open>ex_start\<close>.
\<close>

definition ex_repo_git :: SimpleGit where
  "ex_repo_git =
     \<lparr>checkIsRepo = (\<lambda>p. Inr (p = ''/projects/proj-a'')),
      git_status = (\<lambda>p. Inr \<lparr>current = Some ''main'', isClean = True, files = [], ahead = 0, behind = 0\<rparr>),
      git_log = (\<lambda>p. Inr \<lparr>latest = Some \<lparr>date = ''2023-11-12T22:13:20Z'', message = ''init''\<rparr>\<rparr>),
      getRemotes = (\<lambda>p. Inr []),
      Date_parse = (\<lambda>s. if s = ''2023-11-12T22:13:20Z'' then 1699827200000 else 0)\<rparr>"

definition ex_scanned_a :: Project where
  "ex_scanned_a =
     \<lparr>id' = ''proj-a'', name = ''proj-a'', path = ''/projects/proj-a'', description = None,
      status = Active, lastModified = 1699827200000, hasPackageJson = True, hasReadme = False,
      gitInfo = None, tags = []\<rparr>"

definition ex_scanned_b :: Project where
  "ex_scanned_b =
     \<lparr>id' = ''proj-b'', name = ''proj-b'', path = ''/projects/proj-b'', description = None,
      status = Unknown, lastModified = 1696544000000, hasPackageJson = False, hasReadme = False,
      gitInfo = None, tags = []\<rparr>"

section \<open>project-scanner.ts: reading the README\<close>



definition truncatedSuffix :: string where
  "truncatedSuffix = [CHR 0x0A, CHR 0x0A] @ ''... (truncated)''"





definition truncated :: "string \<Rightarrow> string" where
  "truncated content =
     (if length content > 50000 then take 50000 content @ truncatedSuffix else content)"

section \<open>git-utils.ts: the remote URL\<close>

record GitRemoteUrlResult =
  url :: "string option"
  error' :: "string option"

text \<open>
  The two replacements: \<open>.replace(/\.git$/, '')\<close> and
  \<open>.replace(/^git@([^:]+):/, 'https://$1/')\<close>, the second applied to a string that starts
  with \<open>git@\<close>.
\<close>

definition stripGitSuffix :: "string \<Rightarrow> string" where
  "stripGitSuffix s = (if endsWith s ''.git'' then take (length s - 4) s else s)"

definition sshToHttps :: "string \<Rightarrow> string" where
  "sshToHttps s =
     (if startsWith s ''git@'' then
        (let rest = drop 4 s;
             host = takeWhile (\<lambda>c. c \<noteq> CHR '':'') rest;
             after = dropWhile (\<lambda>c. c \<noteq> CHR '':'') rest
         in if host \<noteq> [] \<and> after \<noteq> [] then ''https://'' @ host @ ''/'' @ tl after else s)
      else s)"

definition normalizeRemoteUrl :: "string \<Rightarrow> string" where
  "normalizeRemoteUrl remoteUrl =
     (if startsWith remoteUrl ''git@'' then stripGitSuffix (sshToHttps remoteUrl)
      else if startsWith remoteUrl ''https://'' \<or> startsWith remoteUrl ''http://''
      then stripGitSuffix remoteUrl
      else remoteUrl)"

definition getGitRemoteUrl :: "SimpleGit \<Rightarrow> string \<Rightarrow> GitRemoteUrlResult outcome" where
  "getGitRemoteUrl git projectPath =
     try_catch
       (await (checkIsRepo git projectPath) (\<lambda>isRepo.
          if \<not> isRepo then Inr \<lparr>url = None, error' = Some ''Not a Git repository''\<rparr>
          else
            await (getRemotes git projectPath) (\<lambda>remotes.
              let origin =
                    (case find (\<lambda>r. remote_name r = ''origin'') remotes of
                       Some r \<Rightarrow> Some r
                     | None \<Rightarrow> (case remotes of [] \<Rightarrow> None | r # _ \<Rightarrow> Some r))
              in case origin of
                   None \<Rightarrow> Inr \<lparr>url = None, error' = Some ''No remote found''\<rparr>
                 | Some remote \<Rightarrow>
                     if fetch remote = [] then Inr \<lparr>url = None, error' = Some ''No remote found''\<rparr>
                     else Inr \<lparr>url = Some (normalizeRemoteUrl (fetch remote)), error' = None\<rparr>)))
       (\<lambda>error. Inr \<lparr>url = None, error' = Some (''Failed to get remote URL: '' @ errorMessage error)\<rparr>)"

text \<open>
  Repository introspection that reports every path as lying in a work tree, as for a
  projects directory kept below a repository: the working tree is clean and the last
  commit was made 45 days before \<open>ex_start\<close>.
\<close>

definition ex_worktree_git :: SimpleGit where
  "ex_worktree_git =
     \<lparr>checkIsRepo = (\<lambda>p. Inr True),
      git_status = (\<lambda>p. Inr \<lparr>current = Some ''main'', isClean = True, files = [], ahead = 0, behind = 0\<rparr>),
      git_log = (\<lambda>p. Inr \<lparr>latest = Some \<lparr>date = ''2023-09-30T22:13:20Z'', message = ''init''\<rparr>\<rparr>),
      getRemotes = (\<lambda>p. Inr []),
      Date_parse = (\<lambda>s. if s = ''2023-09-30T22:13:20Z'' then 1696112000000 else 0)\<rparr>"

definition ex_worktree_info :: GitInfo where
  "ex_worktree_info =
     \<lparr>branch = ''main'', isDirty = False, uncommittedChanges = 0, aheadBy = 0, behindBy = 0,
      lastCommitDate = Some 1696112000000, lastCommitMessage = Some ''init''\<rparr>"

section \<open>A concrete enrichment pass\<close>

text \<open>
  Three repositories with a clean working tree, enriched in one pass that starts at
  \<open>ex_start\<close>. The first two have their last commit exactly 7 days before the start;
  the third has no commit and a directory modified 40 days before the start. The first
  record is classified at the start, the second one second later, the third two seconds
  later.
\<close>

definition ex_start :: Date where
  "ex_start = 1700000000000"

definition ex_git :: SimpleGit where
  "ex_git =
     \<lparr>checkIsRepo = (\<lambda>p. Inr True),
      git_status = (\<lambda>p. Inr \<lparr>current = Some ''main'', isClean = True, files = [], ahead = 0, behind = 0\<rparr>),
      git_log = (\<lambda>p. if p = ''/p/c'' then Inr \<lparr>latest = None\<rparr>
                      else Inr \<lparr>latest = Some \<lparr>date = ''2023-11-07T22:13:20Z'', message = ''init''\<rparr>\<rparr>),
      getRemotes = (\<lambda>p. Inr []),
      Date_parse = (\<lambda>s. if s = ''2023-11-07T22:13:20Z'' then 1699395200000 else 0)\<rparr>"

definition ex_info :: "Date option \<Rightarrow> GitInfo" where
  "ex_info d =
     \<lparr>branch = ''main'', isDirty = False, uncommittedChanges = 0, aheadBy = 0, behindBy = 0,
      lastCommitDate = d, lastCommitMessage = map_option (\<lambda>_. ''init'') d\<rparr>"

definition ex_project :: "string \<Rightarrow> Date \<Rightarrow> Project" where
  "ex_project n m =
     \<lparr>id' = n, name = n, path = ''/p/'' @ n, description = None, status = Unknown,
      lastModified = m, hasPackageJson = False, hasReadme = False, gitInfo = None, tags = []\<rparr>"

definition ex_projects :: "Project list" where
  "ex_projects =
     [ex_project ''a'' 1699990000000, ex_project ''b'' 1699990000000, ex_project ''c'' 1696544000000]"

definition ex_clock :: "nat \<Rightarrow> Date \<times> Date" where
  "ex_clock i =
     (if i = 0 then (1700000000000, 1700000000000)
      else if i = 1 then (1700000001000, 1700000001000)
      else (1700000002000, 1700000002001))"

text \<open>
  What C2 asks of one record of a pass started at the instant \<open>start\<close>: if the status
  lookup returns repository information, the status of the enriched record is the
  classification of the specification on that information, the record's own modification
  date and \<open>start\<close>.
\<close>

definition status_as_specified :: "SimpleGit \<Rightarrow> Date \<Rightarrow> Project \<Rightarrow> Project \<Rightarrow> bool" where
  "status_as_specified git start project enriched =
     (case getGitStatus git (path project) of
        Inr (GitStatusResult repoInfo) \<Rightarrow>
          status enriched = classify (Some repoInfo) (lastModified project) start
      | Inr (GitStatusError _) \<Rightarrow> True
      | Inl _ \<Rightarrow> True)"

text \<open>
  Repository introspection fails on a path when the repository check throws, or the
  path is a repository and reading the working tree status or the log throws.
\<close>

definition introspectionFails :: "SimpleGit \<Rightarrow> string \<Rightarrow> bool" where
  "introspectionFails git p =
     (case checkIsRepo git p of
        Inl _ \<Rightarrow> True
      | Inr isRepo \<Rightarrow>
          isRepo \<and> (case git_status git p of
                      Inl _ \<Rightarrow> True
                    | Inr _ \<Rightarrow> (case git_log git p of Inl _ \<Rightarrow> True | Inr _ \<Rightarrow> False)))"

definition ex_enriched :: "Project list" where
  "ex_enriched =
     [(ex_project ''a'' 1699990000000)\<lparr>gitInfo := Some (ex_info (Some 1699395200000)), status := Active\<rparr>,
      (ex_project ''b'' 1699990000000)\<lparr>gitInfo := Some (ex_info (Some 1699395200000)), status := Clean\<rparr>,
      (ex_project ''c'' 1696544000000)\<lparr>gitInfo := Some (ex_info None), status := Active\<rparr>]"

definition ex_gitN :: SimpleGit where
  "ex_gitN = ex_git\<lparr>checkIsRepo := (\<lambda>p. Inr False)\<rparr>"

definition ex_gitF :: SimpleGit where
  "ex_gitF = ex_git\<lparr>checkIsRepo := (\<lambda>p. Inl (Error ''spawn git ENOENT''))\<rparr>"


definition ex_remote_git :: SimpleGit where
  "ex_remote_git =
     ex_git\<lparr>getRemotes := (\<lambda>p.
        if p = ''/p/a''
        then Inr [\<lparr>remote_name = ''upstream'', fetch = ''https://github.com/up/repo.git'',
                    push = ''https://github.com/up/repo.git''\<rparr>,
                  \<lparr>remote_name = ''origin'', fetch = ''git@github.com:owner/repo.git'',
                    push = ''git@github.com:owner/repo.git''\<rparr>]
        else if p = ''/p/b''
        then Inr [\<lparr>remote_name = ''upstream'', fetch = ''https://github.com/owner/repo.git'',
                    push = ''https://github.com/owner/repo.git''\<rparr>]
        else Inr [])\<rparr>"

section \<open>Classification theorems\<close>

lemma msPerDay_value: "real_of_int msPerDay = 86400000"
  by (simp add: msPerDay_def)

text \<open>
  C1. The status classification of the code is the reference classification of the
  specification for every repository information, modification date and clock reading:
  without repository information the result is active up to 7 days, stale beyond 30 days
  and unknown between; a dirty repository is dirty whatever the dates; a clean repository
  is classified on its last commit date, or on the modification date when there is no
  commit date, as active, stale or clean. The boundaries are exact: a reference exactly
  7 days old is active, and one exactly 30 days old is not stale (unknown without
  repository information, clean with it).
\<close>

theorem determineProjectStatus_is_classify:
  "determineProjectStatus now repoInfo lastModified' = classify repoInfo lastModified' now
   \<and> determineProjectStatus now (Some (r\<lparr>isDirty := True\<rparr>)) lastModified' = Dirty
   \<and> determineProjectStatus (d + 7 * 86400000) None d = Active
   \<and> determineProjectStatus (d + 7 * 86400000 + 1) None d = Unknown
   \<and> determineProjectStatus (d + 30 * 86400000) None d = Unknown
   \<and> determineProjectStatus (d + 30 * 86400000 + 1) None d = Stale
   \<and> determineProjectStatus (d + 7 * 86400000) (Some (r\<lparr>isDirty := False, lastCommitDate := Some d\<rparr>)) lastModified' = Active
   \<and> determineProjectStatus (d + 30 * 86400000) (Some (r\<lparr>isDirty := False, lastCommitDate := Some d\<rparr>)) lastModified' = Clean
   \<and> determineProjectStatus (d + 30 * 86400000) (Some (r\<lparr>isDirty := False, lastCommitDate := None\<rparr>)) d = Clean"
proof -
  have eq: "determineProjectStatus now repoInfo lastModified' = classify repoInfo lastModified' now"
    by (cases repoInfo)
       (simp_all add: determineProjectStatus_def classify_def classify_absent_def
          classify_present_def daysSince_def msPerDay_value Let_def)
  have dirty: "determineProjectStatus now (Some (r\<lparr>isDirty := True\<rparr>)) lastModified' = Dirty"
    by (simp add: determineProjectStatus_def)
  have shift: "\<And>k. d + k - d = k" "\<And>k. d + k + 1 - d = k + 1"
    by simp_all
  have absent: "determineProjectStatus (d + 7 * 86400000) None d = Active"
    "determineProjectStatus (d + 7 * 86400000 + 1) None d = Unknown"
    "determineProjectStatus (d + 30 * 86400000) None d = Unknown"
    "determineProjectStatus (d + 30 * 86400000 + 1) None d = Stale"
    by (simp_all add: determineProjectStatus_def msPerDay_value Let_def shift)
  have present: "determineProjectStatus (d + 7 * 86400000)
        (Some (r\<lparr>isDirty := False, lastCommitDate := Some d\<rparr>)) lastModified' = Active"
    "determineProjectStatus (d + 30 * 86400000)
        (Some (r\<lparr>isDirty := False, lastCommitDate := Some d\<rparr>)) lastModified' = Clean"
    "determineProjectStatus (d + 30 * 86400000)
        (Some (r\<lparr>isDirty := False, lastCommitDate := None\<rparr>)) d = Clean"
    by (simp_all add: determineProjectStatus_def msPerDay_value Let_def shift)
  from eq dirty absent present show ?thesis
    by blast
qed

section \<open>Enrichment theorems\<close>

subsection \<open>What a pass returns, record by record\<close>

lemma Promise_all_pointwise:
  "(\<And>x. x \<in> set xs \<Longrightarrow> \<exists>v. f x = Inr v) \<Longrightarrow>
   \<exists>vs. Promise_all (map f xs) = Inr vs \<and> length vs = length xs
        \<and> (\<forall>i < length xs. f (xs ! i) = Inr (vs ! i))"
proof (induction xs)
  case Nil
  then show ?case by simp
next
  case (Cons x xs)
  from Cons.prems obtain v where v: "f x = Inr v"
    by auto
  from Cons obtain vs where vs: "Promise_all (map f xs) = Inr vs" "length vs = length xs"
    "\<forall>i < length xs. f (xs ! i) = Inr (vs ! i)"
    by auto
  have "\<forall>i < length (x # xs). f ((x # xs) ! i) = Inr ((v # vs) ! i)"
    using v vs(3) by (auto simp: nth_Cons split: nat.splits)
  with v vs show ?case
    by simp
qed

lemma getGitStatus_returns: "\<exists>r. getGitStatus git p = Inr r"
  by (auto simp: getGitStatus_def try_catch_def await_def Promise_all2_def Let_def
      split: sum.splits prod.splits)

lemma enrichProject_returns: "\<exists>q. enrichProject git clk project = Inr q"
proof -
  obtain r where "getGitStatus git (path project) = Inr r"
    using getGitStatus_returns by blast
  then show ?thesis
    by (cases r) (simp_all add: enrichProject_def await_def Let_def)
qed

lemma enrich_pass_pointwise:
  "\<exists>out. enrichProjectsWithGitInfo git clock projects = Inr out
       \<and> length out = length projects
       \<and> (\<forall>i < length projects. enrichProject git (clock i) (projects ! i) = Inr (out ! i))"
proof -
  let ?f = "\<lambda>(i, project). enrichProject git (clock i) project"
  have "\<And>x. x \<in> set (enumerate 0 projects) \<Longrightarrow> \<exists>v. ?f x = Inr v"
    using enrichProject_returns by (auto simp: split_def)
  from Promise_all_pointwise [of "enumerate 0 projects" ?f, OF this]
  obtain out where out: "Promise_all (map ?f (enumerate 0 projects)) = Inr out"
    "length out = length (enumerate 0 projects)"
    "\<forall>i < length (enumerate 0 projects). ?f (enumerate 0 projects ! i) = Inr (out ! i)"
    by blast
  have "\<forall>i < length projects. enrichProject git (clock i) (projects ! i) = Inr (out ! i)"
    using out(3) by (simp add: nth_enumerate_eq)
  with out(1,2) show ?thesis
    by (simp add: enrichProjectsWithGitInfo_def)
qed

lemma ex_getGitStatus:
  "getGitStatus ex_git ''/p/a'' = Inr (GitStatusResult (ex_info (Some 1699395200000)))"
  "getGitStatus ex_git ''/p/b'' = Inr (GitStatusResult (ex_info (Some 1699395200000)))"
  "getGitStatus ex_git ''/p/c'' = Inr (GitStatusResult (ex_info None))"
  by (simp_all add: getGitStatus_def ex_git_def ex_info_def try_catch_def await_def
      Promise_all2_def Let_def)

lemma ex_enriched_run:
  "enrichProjectsWithGitInfo ex_git ex_clock ex_projects =
     Inr [(ex_project ''a'' 1699990000000)\<lparr>gitInfo := Some (ex_info (Some 1699395200000)), status := Active\<rparr>,
          (ex_project ''b'' 1699990000000)\<lparr>gitInfo := Some (ex_info (Some 1699395200000)), status := Clean\<rparr>,
          (ex_project ''c'' 1696544000000)\<lparr>gitInfo := Some (ex_info None), status := Active\<rparr>]"
proof -
  have paths: "path (ex_project ''a'' m) = ''/p/a''" "path (ex_project ''b'' m) = ''/p/b''"
    "path (ex_project ''c'' m) = ''/p/c''" for m
    by (simp_all add: ex_project_def)
  have st: "determineProjectStatus 1700000000000 (Some (ex_info (Some 1699395200000))) 1700000000000 = Active"
    "determineProjectStatus 1700000001000 (Some (ex_info (Some 1699395200000))) 1700000001000 = Clean"
    "determineProjectStatus 1700000002001 (Some (ex_info None)) 1700000002000 = Active"
    by (simp_all add: determineProjectStatus_def ex_info_def msPerDay_value Let_def)
  show ?thesis
    by (simp add: enrichProjectsWithGitInfo_def ex_projects_def enumerate_eq_zip upt_rec
        enrichProject_def paths ex_getGitStatus await_def ex_clock_def st Let_def)
qed


subsection \<open>C2: which date and which clock reading the pass classifies with\<close>

lemma ex_nth:
  "ex_projects ! 0 = ex_project ''a'' 1699990000000"
  "ex_projects ! 1 = ex_project ''b'' 1699990000000"
  "ex_projects ! Suc 0 = ex_project ''b'' 1699990000000"
  "ex_projects ! 2 = ex_project ''c'' 1696544000000"
  "ex_enriched ! 0 = (ex_project ''a'' 1699990000000)\<lparr>gitInfo := Some (ex_info (Some 1699395200000)), status := Active\<rparr>"
  "ex_enriched ! 1 = (ex_project ''b'' 1699990000000)\<lparr>gitInfo := Some (ex_info (Some 1699395200000)), status := Clean\<rparr>"
  "ex_enriched ! Suc 0 = (ex_project ''b'' 1699990000000)\<lparr>gitInfo := Some (ex_info (Some 1699395200000)), status := Clean\<rparr>"
  "ex_enriched ! 2 = (ex_project ''c'' 1696544000000)\<lparr>gitInfo := Some (ex_info None), status := Active\<rparr>"
  by (simp_all add: ex_projects_def ex_enriched_def)

lemma ex_path:
  "path (ex_project ''a'' m) = ''/p/a''" "path (ex_project ''b'' m) = ''/p/b''"
  "path (ex_project ''c'' m) = ''/p/c''"
  by (simp_all add: ex_project_def)

lemma ex_classify_at_start:
  "classify (Some (ex_info (Some 1699395200000))) (lastModified (ex_project ''b'' 1699990000000)) ex_start = Active"
  "classify (Some (ex_info None)) (lastModified (ex_project ''c'' 1696544000000)) ex_start = Stale"
  by (simp_all add: classify_def classify_present_def daysSince_def ex_info_def ex_project_def
      ex_start_def)

text \<open>
  C2 as stated fails. In the pass above, started at \<open>ex_start\<close>, the second record has
  the same repository information as the first, with a commit date, and still gets another
  status (clean, where the classification at the start instant gives active): the clock is
  read again for each record. The third record, a repository without commit date whose
  directory was modified 40 days before the start, comes out active where the
  classification on its own modification date gives stale: the fallback date the pass hands
  to the classification is a fresh clock reading.
\<close>

theorem enrich_fixed_now_counterexample:
  "enrichProjectsWithGitInfo ex_git ex_clock ex_projects = Inr ex_enriched
   \<and> \<not> status_as_specified ex_git ex_start (ex_projects ! 1) (ex_enriched ! 1)
   \<and> \<not> status_as_specified ex_git ex_start (ex_projects ! 2) (ex_enriched ! 2)
   \<and> gitInfo (ex_enriched ! 0) = gitInfo (ex_enriched ! 1)
   \<and> status (ex_enriched ! 0) = Active \<and> status (ex_enriched ! 1) = Clean
   \<and> status (ex_enriched ! 2) = Active"
proof -
  have run: "enrichProjectsWithGitInfo ex_git ex_clock ex_projects = Inr ex_enriched"
    by (simp add: ex_enriched_run ex_enriched_def)
  have b: "\<not> status_as_specified ex_git ex_start (ex_projects ! 1) (ex_enriched ! 1)"
    by (simp add: status_as_specified_def ex_nth ex_path ex_getGitStatus ex_classify_at_start)
  have c: "\<not> status_as_specified ex_git ex_start (ex_projects ! 2) (ex_enriched ! 2)"
    by (simp add: status_as_specified_def ex_nth ex_path ex_getGitStatus ex_classify_at_start)
  show ?thesis
    using run b c by (simp add: ex_nth)
qed

text \<open>
  C2, amended. For every record for which the status lookup returns repository information
  that is dirty or carries a last commit date, the pass attaches that information and the
  recomputed status is the classification of the specification applied to it (with the
  record's own modification date as the fallback argument, which such information never
  uses), taken at the clock reading made for that record inside the classification.
\<close>

theorem enrich_status_at_record_clock:
  assumes "i < length projects"
    and "getGitStatus git (path (projects ! i)) = Inr (GitStatusResult repoInfo)"
    and "isDirty repoInfo \<or> lastCommitDate repoInfo \<noteq> None"
  shows "\<exists>out. enrichProjectsWithGitInfo git clock projects = Inr out
           \<and> length out = length projects
           \<and> gitInfo (out ! i) = Some repoInfo
           \<and> status (out ! i) =
               classify (Some repoInfo) (lastModified (projects ! i)) (snd (clock i))"
proof -
  obtain out where out: "enrichProjectsWithGitInfo git clock projects = Inr out"
    "length out = length projects"
    "enrichProject git (clock i) (projects ! i) = Inr (out ! i)"
    using enrich_pass_pointwise [of git clock projects] assms(1) by blast
  have "out ! i = (projects ! i)\<lparr>gitInfo := Some repoInfo,
      status := determineProjectStatus (snd (clock i)) (Some repoInfo) (fst (clock i))\<rparr>"
    using out(3) assms(2) by (simp add: enrichProject_def await_def Let_def)
  moreover have "determineProjectStatus (snd (clock i)) (Some repoInfo) (fst (clock i)) =
      classify (Some repoInfo) (lastModified (projects ! i)) (snd (clock i))"
    using assms(3)
    by (auto simp: determineProjectStatus_def classify_def classify_present_def daysSince_def
        msPerDay_value Let_def)
  ultimately show ?thesis
    using out(1,2) by simp
qed

theorem enrich_status_at_record_clock_witness:
  "1 < length ex_projects
   \<and> getGitStatus ex_git (path (ex_projects ! 1)) = Inr (GitStatusResult (ex_info (Some 1699395200000)))
   \<and> (isDirty (ex_info (Some 1699395200000)) \<or> lastCommitDate (ex_info (Some 1699395200000)) \<noteq> None)
   \<and> (\<exists>out. enrichProjectsWithGitInfo ex_git ex_clock ex_projects = Inr out
         \<and> length out = length ex_projects
         \<and> gitInfo (out ! 1) = Some (ex_info (Some 1699395200000))
         \<and> status (out ! 1) =
             classify (Some (ex_info (Some 1699395200000))) (lastModified (ex_projects ! 1))
               (snd (ex_clock 1)))"
proof -
  have h1: "1 < length ex_projects"
    by (simp add: ex_projects_def)
  have h2: "getGitStatus ex_git (path (ex_projects ! 1)) = Inr (GitStatusResult (ex_info (Some 1699395200000)))"
    by (simp add: ex_nth ex_path ex_getGitStatus)
  have h3: "isDirty (ex_info (Some 1699395200000)) \<or> lastCommitDate (ex_info (Some 1699395200000)) \<noteq> None"
    by (simp add: ex_info_def)
  from enrich_status_at_record_clock [OF h1 h2 h3, of ex_clock] h1 h2 h3 show ?thesis
    by blast
qed

subsection \<open>C6: records whose status lookup fails\<close>

lemma introspectionFails_error:
  "introspectionFails git p \<Longrightarrow> \<exists>m. getGitStatus git p = Inr (GitStatusError m)"
  by (auto simp: introspectionFails_def getGitStatus_def try_catch_def await_def
      Promise_all2_def split: sum.splits)

lemma not_repository_error:
  "checkIsRepo git p = Inr False \<Longrightarrow> getGitStatus git p = Inr (GitStatusError ''Not a Git repository'')"
  by (simp add: getGitStatus_def try_catch_def await_def)

lemma enrich_error_nth:
  assumes "i < length projects"
    and "getGitStatus git (path (projects ! i)) = Inr (GitStatusError m)"
  shows "\<exists>out. enrichProjectsWithGitInfo git clock projects = Inr out
           \<and> length out = length projects \<and> out ! i = projects ! i"
proof -
  obtain out where out: "enrichProjectsWithGitInfo git clock projects = Inr out"
    "length out = length projects"
    "enrichProject git (clock i) (projects ! i) = Inr (out ! i)"
    using enrich_pass_pointwise [of git clock projects] assms(1) by blast
  from out(3) assms(2) have "out ! i = projects ! i"
    by (simp add: enrichProject_def await_def)
  with out(1,2) show ?thesis
    by simp
qed

text \<open>
  C6. A record for which the status lookup returns an error comes out of the pass as it
  went in: the whole record, so no repository information is attached and the status and
  every other field are the scanner's. Hence, for the same scanner output, a pass over a
  backend on which the introspection of the directory fails (the repository check, the
  working tree status or the log throws) and a pass over a backend that reports the
  directory as not being a repository return the same record at that position.
\<close>

theorem enrich_error_record_unchanged:
  assumes "i < length projects"
    and "getGitStatus git (path (projects ! i)) = Inr (GitStatusError m)"
    and "checkIsRepo gitN (path (projects ! i)) = Inr False"
    and "introspectionFails gitF (path (projects ! i))"
  shows "(\<exists>out. enrichProjectsWithGitInfo git clock projects = Inr out
            \<and> length out = length projects \<and> out ! i = projects ! i)
       \<and> (\<exists>outN outF. enrichProjectsWithGitInfo gitN clockN projects = Inr outN
            \<and> enrichProjectsWithGitInfo gitF clockF projects = Inr outF
            \<and> outN ! i = projects ! i \<and> outF ! i = projects ! i
            \<and> status (outF ! i) = status (outN ! i) \<and> gitInfo (outF ! i) = gitInfo (outN ! i))"
proof -
  obtain mF where "getGitStatus gitF (path (projects ! i)) = Inr (GitStatusError mF)"
    using introspectionFails_error [OF assms(4)] by blast
  from enrich_error_nth [OF assms(1) this, of clockF]
  obtain outF where outF: "enrichProjectsWithGitInfo gitF clockF projects = Inr outF"
    "outF ! i = projects ! i"
    by blast
  from enrich_error_nth [OF assms(1) not_repository_error [OF assms(3)], of clockN]
  obtain outN where outN: "enrichProjectsWithGitInfo gitN clockN projects = Inr outN"
    "outN ! i = projects ! i"
    by blast
  from outF outN enrich_error_nth [OF assms(1,2), of clock] show ?thesis
    by auto
qed

theorem enrich_error_record_unchanged_witness:
  "2 < length ex_projects
   \<and> getGitStatus ex_gitF (path (ex_projects ! 2)) =
       Inr (GitStatusError ''Failed to get Git status: spawn git ENOENT'')
   \<and> checkIsRepo ex_gitN (path (ex_projects ! 2)) = Inr False
   \<and> introspectionFails ex_gitF (path (ex_projects ! 2))
   \<and> (\<exists>outN outF. enrichProjectsWithGitInfo ex_gitN ex_clock ex_projects = Inr outN
         \<and> enrichProjectsWithGitInfo ex_gitF ex_clock ex_projects = Inr outF
         \<and> outN ! 2 = ex_projects ! 2 \<and> outF ! 2 = ex_projects ! 2)"
proof -
  have h1: "2 < length ex_projects"
    by (simp add: ex_projects_def)
  have h2: "getGitStatus ex_gitF (path (ex_projects ! 2)) =
      Inr (GitStatusError ''Failed to get Git status: spawn git ENOENT'')"
    by (simp add: getGitStatus_def ex_gitF_def ex_git_def try_catch_def await_def errorMessage_def)
  have h3: "checkIsRepo ex_gitN (path (ex_projects ! 2)) = Inr False"
    by (simp add: ex_gitN_def ex_git_def)
  have h4: "introspectionFails ex_gitF (path (ex_projects ! 2))"
    by (simp add: introspectionFails_def ex_gitF_def ex_git_def)
  from enrich_error_record_unchanged [OF h1 h2 h3 h4, of ex_clock ex_clock ex_clock] h1 h2 h3 h4
  show ?thesis
    by blast
qed

section \<open>Project identifier theorems\<close>



















lemma last_tl': "tl s \<noteq> [] \<Longrightarrow> last (tl s) = last s"
  by (cases s) auto




section \<open>Scanner theorems\<close>

subsection \<open>What each step of a scan returns\<close>

lemma Promise_all_map_Inr:
  "(\<And>x. x \<in> set xs \<Longrightarrow> f x = Inr (g x)) \<Longrightarrow> Promise_all (map f xs) = Inr (map g xs)"
  by (induction xs) simp_all

lemma fileExists_eq: "fileExists fs p = Inr (\<not> isl (access fs p))"
  by (cases "access fs p") (simp_all add: fileExists_def try_catch_def await_def)

lemma isProjectDirectory_eq:
  "isProjectDirectory fs d =
     Inr (list_ex (\<lambda>indicator. \<not> isl (access fs (path_join fs d indicator))) projectIndicators)"
proof -
  have "Promise_all (map (\<lambda>indicator. fileExists fs (path_join fs d indicator)) projectIndicators) =
      Inr (map (\<lambda>indicator. \<not> isl (access fs (path_join fs d indicator))) projectIndicators)"
    by (rule Promise_all_map_Inr) (simp add: fileExists_eq)
  then show ?thesis
    by (simp add: isProjectDirectory_def await_def list_ex_iff)
qed

lemma getProjectDescription_returns: "\<exists>d. getProjectDescription fs p = Inr d"
  by (auto simp: getProjectDescription_def try_catch_def Let_def split: sum.splits)

lemma scanProject_throws: "stat fs p = Inl e \<Longrightarrow> scanProject fs now p n = Inl e"
  by (simp add: scanProject_def await_def)

lemma scanProject_throws_tags:
  assumes "stat fs p = Inr st" and "getProjectTags fs (createProjectId n) = Inl e"
  shows "scanProject fs now p n = Inl e"
proof -
  obtain d where d: "getProjectDescription fs p = Inr d"
    using getProjectDescription_returns by blast
  show ?thesis
    using assms d
    by (simp add: scanProject_def await_def fileExists_eq Promise_all3_def Promise_all2_def Let_def)
qed

lemma scanProject_returns:
  assumes "stat fs p = Inr st" and "getProjectTags fs (createProjectId n) = Inr ts"
  shows "\<exists>pr. scanProject fs now p n = Inr pr \<and> path pr = p \<and> name pr = n
           \<and> id' pr = createProjectId n \<and> lastModified pr = mtime st
           \<and> status pr = determineInitialStatus now (mtime st) \<and> gitInfo pr = None
           \<and> tags pr = ts"
proof -
  obtain d where d: "getProjectDescription fs p = Inr d"
    using getProjectDescription_returns by blast
  show ?thesis
    using assms d
    by (simp add: scanProject_def await_def fileExists_eq Promise_all3_def Promise_all2_def Let_def)
qed

lemma scanProject_fails_iff:
  "isl (scanProject fs now p n) \<longleftrightarrow> isl (stat fs p) \<or> isl (getProjectTags fs (createProjectId n))"
proof (cases "stat fs p")
  case (Inl e)
  then show ?thesis
    by (simp add: scanProject_throws)
next
  case st: (Inr st)
  show ?thesis
  proof (cases "getProjectTags fs (createProjectId n)")
    case (Inl e)
    with st show ?thesis
      by (simp add: scanProject_throws_tags)
  next
    case (Inr ts)
    with st scanProject_returns [of fs p st n ts now] show ?thesis
      by auto
  qed
qed

lemma scanProject_fields:
  assumes "scanProject fs now p n = Inr pr"
  shows "path pr = p \<and> name pr = n \<and> gitInfo pr = None
       \<and> (\<exists>st. stat fs p = Inr st \<and> lastModified pr = mtime st
             \<and> status pr = determineInitialStatus now (mtime st))"
proof -
  from assms have "\<not> isl (scanProject fs now p n)"
    by simp
  then obtain st ts where "stat fs p = Inr st" "getProjectTags fs (createProjectId n) = Inr ts"
    unfolding scanProject_fails_iff
    by (cases "stat fs p"; cases "getProjectTags fs (createProjectId n)") auto
  from scanProject_returns [OF this, of now] assms this(1) show ?thesis
    by auto
qed

lemma scanEntry_failed:
  assumes "scanProject fs now (path_join fs rootPath (entry_name d)) (entry_name d) = Inl e"
  shows "scanEntry fs now rootPath d =
     Inr (ProjectScanError (''Failed to scan project: '' @ errorMessage e)
            (path_join fs rootPath (entry_name d)))"
  using assms
  by (simp add: scanEntry_def isProjectDirectory_eq await_def try_catch_def Let_def)

lemma scanEntry_scanned:
  assumes "scanProject fs now (path_join fs rootPath (entry_name d)) (entry_name d) = Inr pr"
  shows "scanEntry fs now rootPath d =
     Inr (ProjectScanResult
       (if list_ex (\<lambda>indicator. \<not> isl (access fs (path_join fs (path_join fs rootPath (entry_name d)) indicator)))
             projectIndicators
        then pr else pr\<lparr>status := Unknown\<rparr>))"
  using assms
  by (simp add: scanEntry_def isProjectDirectory_eq await_def try_catch_def Let_def)

lemma scanEntry_returns:
  "\<exists>r. scanEntry fs now rootPath d = Inr r \<and> result_path r = path_join fs rootPath (entry_name d)"
proof (cases "scanProject fs now (path_join fs rootPath (entry_name d)) (entry_name d)")
  case (Inl e)
  then show ?thesis
    by (simp add: scanEntry_failed result_path_def)
next
  case (Inr pr)
  then show ?thesis
    using scanEntry_scanned [OF Inr] scanProject_fields [OF Inr] by (simp add: result_path_def)
qed

lemma scanDirectory_pointwise:
  assumes "stat fs rootPath = Inr st" and "stats_isDirectory st" and "readdir fs rootPath = Inr entries"
  shows "\<exists>results. scanDirectory fs clock rootPath options = Inr results
           \<and> length results = length (filter (isScannedEntry (includeHidden options = Some True)) entries)
           \<and> (\<forall>i < length results.
                 scanEntry fs (clock i) rootPath
                   (filter (isScannedEntry (includeHidden options = Some True)) entries ! i) =
                 Inr (results ! i))"
proof -
  let ?inc = "case includeHidden options of Some b \<Rightarrow> b | None \<Rightarrow> False"
  have inc: "?inc = (includeHidden options = Some True)"
    by (cases "includeHidden options") auto
  let ?dirs = "filter (isScannedEntry ?inc) entries"
  let ?f = "\<lambda>(i, dir). scanEntry fs (clock i) rootPath dir"
  have "\<And>x. x \<in> set (enumerate 0 ?dirs) \<Longrightarrow> \<exists>v. ?f x = Inr v"
    using scanEntry_returns by (fastforce simp: split_def)
  from Promise_all_pointwise [of "enumerate 0 ?dirs" ?f, OF this]
  obtain results where results: "Promise_all (map ?f (enumerate 0 ?dirs)) = Inr results"
    "length results = length (enumerate 0 ?dirs)"
    "\<forall>i < length (enumerate 0 ?dirs). ?f (enumerate 0 ?dirs ! i) = Inr (results ! i)"
    by blast
  have "\<forall>i < length results. scanEntry fs (clock i) rootPath (?dirs ! i) = Inr (results ! i)"
    using results(2,3) by (simp add: nth_enumerate_eq)
  moreover have "scanDirectory fs clock rootPath options = Inr results"
    using assms results(1) by (simp add: scanDirectory_def Let_def)
  ultimately show ?thesis
    using results(2) inc by auto
qed

lemma isScannedEntry_retained: "isScannedEntry h entry = retained h entry"
  by (simp add: isScannedEntry_def retained_def IGNORED_DIRECTORIES_def startsWith_def)

lemma scanDirectory_paths:
  assumes "stat fs rootPath = Inr st" and "stats_isDirectory st"
    and "readdir fs rootPath = Inr entries"
  shows "\<exists>results. scanDirectory fs clock rootPath options = Inr results
           \<and> map result_path results =
               map (\<lambda>entry. path_join fs rootPath (entry_name entry))
                 (filter (isScannedEntry (includeHidden options = Some True)) entries)"
proof -
  let ?dirs = "filter (isScannedEntry (includeHidden options = Some True)) entries"
  obtain results where results: "scanDirectory fs clock rootPath options = Inr results"
    "length results = length ?dirs"
    "\<forall>i < length results. scanEntry fs (clock i) rootPath (?dirs ! i) = Inr (results ! i)"
    using scanDirectory_pointwise [OF assms] by blast
  have "result_path (results ! i) = path_join fs rootPath (entry_name (?dirs ! i))"
    if "i < length results" for i
    using results(3) that scanEntry_returns [of fs "clock i" rootPath "?dirs ! i"] by auto
  then have "map result_path results = map (\<lambda>entry. path_join fs rootPath (entry_name entry)) ?dirs"
    using results(2) by (simp add: list_eq_iff_nth_eq)
  with results(1) show ?thesis
    by blast
qed

lemma ex_root:
  "stat ex_fs ''/projects'' = Inr (Stats True 1699900000000)"
  "stats_isDirectory (Stats True 1699900000000)"
  "readdir ex_fs ''/projects'' =
     Inr [Dirent ''proj-a'' True, Dirent ''proj-b'' True, Dirent ''locked'' True,
          Dirent ''node_modules'' True, Dirent ''.config'' True, Dirent ''notes.txt'' False]"
  by (simp_all add: ex_fs_def)

lemma ex_filter:
  "filter (isScannedEntry (includeHidden ex_options = Some True))
     [Dirent ''proj-a'' True, Dirent ''proj-b'' True, Dirent ''locked'' True,
      Dirent ''node_modules'' True, Dirent ''.config'' True, Dirent ''notes.txt'' False] =
   ex_directories"
  by (simp add: isScannedEntry_def IGNORED_DIRECTORIES_def startsWith_def ex_options_def
      ex_directories_def)

subsection \<open>C9: one result per retained child, in listing order\<close>

text \<open>
  C9. When the root is a directory whose listing can be read, the scan returns one
  result for each retained child and no other, in the order of the filtered listing: the
  paths of the results are the paths of the retained children, in that order. The filter of
  the code retains exactly the children that are directories, are not named by one of the
  thirteen ignored names, and are not hidden unless hidden directories are included; an
  ignored name is dropped also when hidden directories are included.
\<close>

theorem scanDirectory_one_result_per_retained_child:
  assumes "stat fs rootPath = Inr st" and "stats_isDirectory st"
    and "readdir fs rootPath = Inr entries"
  shows "(\<exists>results. scanDirectory fs clock rootPath options = Inr results
            \<and> length results = length (filter (retained (includeHidden options = Some True)) entries)
            \<and> map result_path results =
                map (\<lambda>entry. path_join fs rootPath (entry_name entry))
                  (filter (retained (includeHidden options = Some True)) entries))
       \<and> isScannedEntry hidden_included entry = retained hidden_included entry
       \<and> (entry_name entry \<in> IGNORED_DIRECTORIES \<longrightarrow> \<not> isScannedEntry True entry)"
proof -
  have same: "isScannedEntry h = retained h" for h
    using isScannedEntry_retained by blast
  obtain results where results: "scanDirectory fs clock rootPath options = Inr results"
    "map result_path results =
       map (\<lambda>entry. path_join fs rootPath (entry_name entry))
         (filter (retained (includeHidden options = Some True)) entries)"
    using scanDirectory_paths [OF assms, of clock options] by (auto simp: same)
  from results(2) have "length results = length (filter (retained (includeHidden options = Some True)) entries)"
    using map_eq_imp_length_eq by fastforce
  moreover have "entry_name entry \<in> IGNORED_DIRECTORIES \<longrightarrow> \<not> isScannedEntry True entry"
    by (simp add: isScannedEntry_def)
  ultimately show ?thesis
    using results same by auto
qed

theorem scanDirectory_one_result_per_retained_child_witness:
  "stat ex_fs ''/projects'' = Inr (Stats True 1699900000000)
   \<and> stats_isDirectory (Stats True 1699900000000)
   \<and> (\<exists>results. scanDirectory ex_fs ex_scan_clock ''/projects'' ex_options = Inr results
         \<and> length results = 3
         \<and> map result_path results = [''/projects/proj-a'', ''/projects/proj-b'', ''/projects/locked''])
   \<and> \<not> isScannedEntry True (Dirent ''.git'' True)"
proof -
  have f: "filter (retained (includeHidden ex_options = Some True))
     [Dirent ''proj-a'' True, Dirent ''proj-b'' True, Dirent ''locked'' True,
      Dirent ''node_modules'' True, Dirent ''.config'' True, Dirent ''notes.txt'' False] =
     ex_directories"
    using ex_filter isScannedEntry_retained [abs_def] by simp
  have j: "path_join ex_fs a b = a @ ''/'' @ b" for a b
    by (simp add: ex_fs_def)
  have g: "entry_name (Dirent ''.git'' True) \<in> IGNORED_DIRECTORIES"
    by (simp add: IGNORED_DIRECTORIES_def)
  note scanDirectory_one_result_per_retained_child
    [OF ex_root, of ex_scan_clock ex_options True "Dirent ''.git'' True", unfolded f j]
  then show ?thesis
    using g by (auto simp: ex_root ex_directories_def numeral_3_eq_3)
qed

subsection \<open>C5: a root that cannot be scanned\<close>

text \<open>
  C5. If the root path cannot be accessed, is not a directory, or its listing cannot be
  read, the scan returns, as a value, exactly one error, tagged with the root path and
  with a message that is not empty, and no project record. The message says which of the
  three cases it is.
\<close>

theorem scanDirectory_root_error:
  assumes "rootUnusable fs rootPath"
  shows "\<exists>message. scanDirectory fs clock rootPath options = Inr [ProjectScanError message rootPath]
           \<and> message \<noteq> []
           \<and> filterSuccessfulScans [ProjectScanError message rootPath] = []
           \<and> filterScanErrors [ProjectScanError message rootPath] = [ProjectScanError message rootPath]
           \<and> (\<forall>e. stat fs rootPath = Inl e \<longrightarrow> message = ''Cannot access directory: '' @ errorMessage e)
           \<and> (\<forall>st. stat fs rootPath = Inr st \<and> \<not> stats_isDirectory st \<longrightarrow>
                  message = ''Path is not a directory: '' @ rootPath)
           \<and> (\<forall>st e. stat fs rootPath = Inr st \<and> stats_isDirectory st \<and> readdir fs rootPath = Inl e \<longrightarrow>
                  message = ''Failed to read directory: '' @ errorMessage e)"
proof (cases "stat fs rootPath")
  case (Inl e)
  then show ?thesis
    by (simp add: scanDirectory_def filterSuccessfulScans_def filterScanErrors_def)
next
  case (Inr st)
  show ?thesis
  proof (cases "stats_isDirectory st")
    case False
    with Inr show ?thesis
      by (simp add: scanDirectory_def filterSuccessfulScans_def filterScanErrors_def)
  next
    case True
    with Inr assms obtain e where "readdir fs rootPath = Inl e"
      by (auto simp: rootUnusable_def split: sum.splits)
    with Inr True show ?thesis
      by (simp add: scanDirectory_def filterSuccessfulScans_def filterScanErrors_def)
  qed
qed

theorem scanDirectory_root_error_witness:
  "rootUnusable ex_fs ''/missing'' \<and> rootUnusable ex_fs ''/projects/notes.txt''
   \<and> rootUnusable ex_fs ''/sealed''
   \<and> scanDirectory ex_fs ex_scan_clock ''/missing'' ex_options =
       Inr [ProjectScanError ''Cannot access directory: ENOENT: no such file or directory'' ''/missing'']
   \<and> scanDirectory ex_fs ex_scan_clock ''/projects/notes.txt'' ex_options =
       Inr [ProjectScanError ''Path is not a directory: /projects/notes.txt'' ''/projects/notes.txt'']
   \<and> scanDirectory ex_fs ex_scan_clock ''/sealed'' ex_options =
       Inr [ProjectScanError ''Failed to read directory: EACCES: permission denied'' ''/sealed'']"
proof -
  have st: "stat ex_fs ''/missing'' = Inl (Error ''ENOENT: no such file or directory'')"
    "stat ex_fs ''/projects/notes.txt'' = Inr (Stats False 1699900000000)"
    "stat ex_fs ''/sealed'' = Inr (Stats True 1699900000000)"
    "readdir ex_fs ''/sealed'' = Inl (Error ''EACCES: permission denied'')"
    by (simp_all add: ex_fs_def)
  have h: "rootUnusable ex_fs ''/missing''" "rootUnusable ex_fs ''/projects/notes.txt''"
    "rootUnusable ex_fs ''/sealed''"
    by (simp_all add: rootUnusable_def st)
  from scanDirectory_root_error [OF h(1), of ex_scan_clock ex_options]
    scanDirectory_root_error [OF h(2), of ex_scan_clock ex_options]
    scanDirectory_root_error [OF h(3), of ex_scan_clock ex_options]
  show ?thesis
    using h by (auto simp: st errorMessage_def)
qed

subsection \<open>The concrete directory, evaluated\<close>

lemma ex_ids:
  "createProjectId ''proj-a'' = ''proj-a''" "createProjectId ''proj-b'' = ''proj-b''"
proof -
  have "toLowerCase ''proj-a'' = ''proj-a''" "toLowerCase ''proj-b'' = ''proj-b''"
    by (simp_all add: toLowerCase_def upperCaseLetters_def lowerCaseLetters_def)
  moreover have "replaceNonIdChars ''proj-a'' = ''proj-a''" "replaceNonIdChars ''proj-b'' = ''proj-b''"
    by (simp_all add: replaceNonIdChars_def idChars_def)
  ultimately show "createProjectId ''proj-a'' = ''proj-a''" "createProjectId ''proj-b'' = ''proj-b''"
    by (simp_all add: createProjectId_def trimDashes_def)
qed

lemma ex_fs_fields:
  "path_join ex_fs a b = a @ ''/'' @ b"
  "access ex_fs p = (if p = ''/projects/proj-a/package.json'' then Inr ()
                     else Inl (Error ''ENOENT: no such file or directory''))"
  "readFile ex_fs p = (if p = ''/projects/proj-a/package.json'' then Inr ''{}''
                       else Inl (Error ''ENOENT: no such file or directory''))"
  "JSON_description ex_fs c = Inr None"
  "JSON_tags ex_fs c = Inr (Some Map.empty)"
  "TAGS_FILE ex_fs = ''/home/dev/.organizeme/project-tags.json''"
  "stat ex_fs ''/projects/proj-a'' = Inr (Stats True 1699827200000)"
  "stat ex_fs ''/projects/proj-b'' = Inr (Stats True 1696544000000)"
  "stat ex_fs ''/projects/locked'' = Inl (Error ''EACCES: permission denied'')"
  by (simp_all add: ex_fs_def)

lemma ex_tags: "getProjectTags ex_fs i = Inr []"
  by (simp add: getProjectTags_def loadProjectTags_def ex_fs_fields try_catch_def await_def)

lemma ex_scanProject:
  "scanProject ex_fs 1700000000000 ''/projects/proj-a'' ''proj-a'' = Inr ex_scanned_a"
  "scanProject ex_fs 1700000000001 ''/projects/proj-b'' ''proj-b'' = Inr (ex_scanned_b\<lparr>status := Stale\<rparr>)"
  by (simp_all add: scanProject_def ex_fs_fields ex_ids ex_tags fileExists_eq
      getProjectDescription_def determineInitialStatus_def msPerDay_value Promise_all3_def
      Promise_all2_def await_def try_catch_def Let_def ex_scanned_a_def ex_scanned_b_def)

lemma ex_scanEntry:
  "scanEntry ex_fs 1700000000000 ''/projects'' (Dirent ''proj-a'' True) =
     Inr (ProjectScanResult ex_scanned_a)"
  "scanEntry ex_fs 1700000000001 ''/projects'' (Dirent ''proj-b'' True) =
     Inr (ProjectScanResult ex_scanned_b)"
  "scanEntry ex_fs 1700000000002 ''/projects'' (Dirent ''locked'' True) =
     Inr (ProjectScanError ''Failed to scan project: EACCES: permission denied'' ''/projects/locked'')"
proof -
  have a: "isProjectDirectory ex_fs ''/projects/proj-a'' = Inr True"
    by (simp add: isProjectDirectory_eq projectIndicators_def ex_fs_fields)
  have b: "isProjectDirectory ex_fs ''/projects/proj-b'' = Inr False"
    by (simp add: isProjectDirectory_eq projectIndicators_def ex_fs_fields)
  have j: "path_join ex_fs ''/projects'' n = ''/projects/'' @ n" for n
    by (simp add: ex_fs_fields)
  show "scanEntry ex_fs 1700000000000 ''/projects'' (Dirent ''proj-a'' True) =
      Inr (ProjectScanResult ex_scanned_a)"
    by (simp add: scanEntry_def j a ex_scanProject await_def try_catch_def)
  show "scanEntry ex_fs 1700000000001 ''/projects'' (Dirent ''proj-b'' True) =
      Inr (ProjectScanResult ex_scanned_b)"
    by (simp add: scanEntry_def j b ex_scanProject await_def try_catch_def ex_scanned_b_def)
  show "scanEntry ex_fs 1700000000002 ''/projects'' (Dirent ''locked'' True) =
      Inr (ProjectScanError ''Failed to scan project: EACCES: permission denied'' ''/projects/locked'')"
    using scanEntry_failed [of ex_fs 1700000000002 "''/projects''" "Dirent ''locked'' True"
        "Error ''EACCES: permission denied''"]
    by (simp add: ex_fs_fields scanProject_throws errorMessage_def)
qed

lemma ex_scan_run:
  "scanDirectory ex_fs ex_scan_clock ''/projects'' ex_options =
     Inr [ProjectScanResult ex_scanned_a, ProjectScanResult ex_scanned_b,
          ProjectScanError ''Failed to scan project: EACCES: permission denied'' ''/projects/locked'']"
proof -
  have "filter (isScannedEntry False)
     [Dirent ''proj-a'' True, Dirent ''proj-b'' True, Dirent ''locked'' True,
      Dirent ''node_modules'' True, Dirent ''.config'' True, Dirent ''notes.txt'' False] =
     ex_directories"
    using ex_filter by (simp add: ex_options_def)
  then show ?thesis
    by (simp add: scanDirectory_def ex_root ex_options_def ex_directories_def enumerate_eq_zip
        upt_rec ex_scan_clock_def ex_scanEntry)
qed

lemma ex_repo_status:
  "getGitStatus ex_repo_git ''/projects/proj-a'' = Inr (GitStatusResult (ex_info (Some 1699827200000)))"
  "getGitStatus ex_repo_git ''/projects/proj-b'' = Inr (GitStatusError ''Not a Git repository'')"
  by (simp_all add: getGitStatus_def ex_repo_git_def ex_info_def try_catch_def await_def
      Promise_all2_def Let_def)

lemma ex_scan_enrich_run:
  "enrichProjectsWithGitInfo ex_repo_git ex_clock
     (filterSuccessfulScans
        [ProjectScanResult ex_scanned_a, ProjectScanResult ex_scanned_b,
         ProjectScanError ''Failed to scan project: EACCES: permission denied'' ''/projects/locked'']) =
   Inr [ex_scanned_a\<lparr>gitInfo := Some (ex_info (Some 1699827200000)), status := Active\<rparr>, ex_scanned_b]"
proof -
  have p: "path ex_scanned_a = ''/projects/proj-a''" "path ex_scanned_b = ''/projects/proj-b''"
    by (simp_all add: ex_scanned_a_def ex_scanned_b_def)
  have st: "determineProjectStatus 1700000000000 (Some (ex_info (Some 1699827200000))) 1700000000000 = Active"
    by (simp add: determineProjectStatus_def ex_info_def msPerDay_value Let_def)
  show ?thesis
    by (simp add: filterSuccessfulScans_def enrichProjectsWithGitInfo_def enumerate_eq_zip upt_rec
        enrichProject_def p ex_repo_status await_def ex_clock_def st Let_def)
qed

lemma ex_null_tags: "getProjectTags ex_null_tags_fs i = Inl (Error (nullPropertyMessage i))"
  by (simp add: getProjectTags_def loadProjectTags_def ex_null_tags_fs_def ex_fs_def try_catch_def
      await_def)

lemma ex_null_tags_scanEntry:
  "scanEntry ex_null_tags_fs now ''/projects'' (Dirent ''proj-a'' True) =
     Inr (ProjectScanError (''Failed to scan project: '' @ nullPropertyMessage ''proj-a'')
            ''/projects/proj-a'')"
proof -
  have "stat ex_null_tags_fs ''/projects/proj-a'' = Inr (Stats True 1699827200000)"
    "path_join ex_null_tags_fs ''/projects'' ''proj-a'' = ''/projects/proj-a''"
    by (simp_all add: ex_null_tags_fs_def ex_fs_def)
  then show ?thesis
    using scanEntry_failed [of ex_null_tags_fs now "''/projects''" "Dirent ''proj-a'' True"
        "Error (nullPropertyMessage ''proj-a'')"]
      scanProject_throws_tags [of ex_null_tags_fs "''/projects/proj-a''" "Stats True 1699827200000"
        "''proj-a''" "Error (nullPropertyMessage ''proj-a'')" now]
    by (simp add: ex_null_tags ex_ids errorMessage_def)
qed

lemma ex_worktree_status:
  "getGitStatus ex_worktree_git p = Inr (GitStatusResult ex_worktree_info)"
  by (simp add: getGitStatus_def ex_worktree_git_def ex_worktree_info_def try_catch_def await_def
      Promise_all2_def Let_def)

lemma ex_worktree_enrich_run:
  "enrichProjectsWithGitInfo ex_worktree_git ex_clock
     (filterSuccessfulScans
        [ProjectScanResult ex_scanned_a, ProjectScanResult ex_scanned_b,
         ProjectScanError ''Failed to scan project: EACCES: permission denied'' ''/projects/locked'']) =
   Inr [ex_scanned_a\<lparr>gitInfo := Some ex_worktree_info, status := Stale\<rparr>,
        ex_scanned_b\<lparr>gitInfo := Some ex_worktree_info, status := Stale\<rparr>]"
proof -
  have st: "determineProjectStatus 1700000000000 (Some ex_worktree_info) 1700000000000 = Stale"
    "determineProjectStatus 1700000001000 (Some ex_worktree_info) 1700000001000 = Stale"
    by (simp_all add: determineProjectStatus_def ex_worktree_info_def msPerDay_value Let_def)
  show ?thesis
    by (simp add: filterSuccessfulScans_def enrichProjectsWithGitInfo_def enumerate_eq_zip upt_rec
        enrichProject_def ex_worktree_status await_def ex_clock_def st Let_def)
qed

subsection \<open>C4: a child directory whose scan fails\<close>





subsection \<open>C3: directories without any project indicator\<close>

lemma enrichProject_path: "enrichProject git clk p = Inr q \<Longrightarrow> path q = path p"
  by (auto simp: enrichProject_def await_def Let_def split: sum.splits GetGitStatusResult.splits)

lemma set_filterSuccessfulScans:
  "pr \<in> set (filterSuccessfulScans rs) \<longleftrightarrow> ProjectScanResult pr \<in> set rs"
  by (induction rs) (auto simp: filterSuccessfulScans_def split: ScanResult.splits)

lemma scanEntry_unindicated:
  assumes "\<forall>indicator \<in> set projectIndicators.
      isl (access fs (path_join fs (path_join fs rootPath (entry_name d)) indicator))"
    and "scanEntry fs now rootPath d = Inr (ProjectScanResult pr)"
  shows "status pr = Unknown \<and> path pr = path_join fs rootPath (entry_name d)
       \<and> (\<exists>st. stat fs (path_join fs rootPath (entry_name d)) = Inr st \<and> lastModified pr = mtime st)"
proof (cases "scanProject fs now (path_join fs rootPath (entry_name d)) (entry_name d)")
  case (Inl e)
  with assms(2) show ?thesis
    by (simp add: scanEntry_failed)
next
  case (Inr pr0)
  have "\<not> list_ex (\<lambda>indicator. \<not> isl (access fs (path_join fs (path_join fs rootPath (entry_name d)) indicator)))
      projectIndicators"
    using assms(1) by (simp add: list_ex_iff)
  with scanEntry_scanned [OF Inr] assms(2) have "pr = pr0\<lparr>status := Unknown\<rparr>"
    by simp
  with scanProject_fields [OF Inr] show ?thesis
    by auto
qed

text \<open>
  C3 as stated fails. In \<open>/projects\<close> the directory \<open>locked\<close> holds none of the indicator
  files and the scan returns an error for it, not a record, because its \<open>stat\<close> throws.
  The directory \<open>proj-b\<close> holds none of the indicator files either and was modified 40
  days before \<open>ex_start\<close>; the scan gives it the status unknown, but under a repository
  introspection that reports \<open>proj-b\<close> as lying in a work tree the enrichment pass
  attaches the repository information and recomputes the status, which comes out stale.
\<close>

theorem unindicated_directory_counterexample:
  "isProjectDirectory ex_fs ''/projects/proj-b'' = Inr False
   \<and> isProjectDirectory ex_fs ''/projects/locked'' = Inr False
   \<and> scanDirectory ex_fs ex_scan_clock ''/projects'' ex_options =
       Inr [ProjectScanResult ex_scanned_a, ProjectScanResult ex_scanned_b,
            ProjectScanError ''Failed to scan project: EACCES: permission denied'' ''/projects/locked'']
   \<and> status ex_scanned_b = Unknown
   \<and> lastModified ex_scanned_b = ex_start - 40 * 86400000
   \<and> enrichProjectsWithGitInfo ex_worktree_git ex_clock
       (filterSuccessfulScans
          [ProjectScanResult ex_scanned_a, ProjectScanResult ex_scanned_b,
           ProjectScanError ''Failed to scan project: EACCES: permission denied'' ''/projects/locked'']) =
       Inr [ex_scanned_a\<lparr>gitInfo := Some ex_worktree_info, status := Stale\<rparr>,
            ex_scanned_b\<lparr>gitInfo := Some ex_worktree_info, status := Stale\<rparr>]
   \<and> status (ex_scanned_b\<lparr>gitInfo := Some ex_worktree_info, status := Stale\<rparr>) = Stale"
proof -
  have b: "isProjectDirectory ex_fs ''/projects/proj-b'' = Inr False"
    "isProjectDirectory ex_fs ''/projects/locked'' = Inr False"
    by (simp_all add: isProjectDirectory_eq projectIndicators_def ex_fs_fields)
  have f: "status ex_scanned_b = Unknown" "lastModified ex_scanned_b = ex_start - 40 * 86400000"
    by (simp_all add: ex_scanned_b_def ex_start_def)
  from b f ex_scan_run ex_worktree_enrich_run show ?thesis
    by simp
qed

text \<open>
  C3, amended. A retained child directory that holds none of the indicator files, and whose
  metadata extraction succeeds (its \<open>stat\<close> and the tag lookup for its identifier do not
  throw), gets a project record from the scan, and the status of that record is unknown
  whatever the modification time of the directory and the clock are. When the status
  lookup of the enrichment pass returns an error for that directory, as it does for a
  directory that is not reported as a repository, the record is among the enriched records
  and every enriched record of that directory has status unknown: such a directory
  modified 40 days ago ends as unknown, not stale.
\<close>

theorem unindicated_directory_unknown:
  assumes "stat fs rootPath = Inr st" and "stats_isDirectory st"
    and "readdir fs rootPath = Inr entries"
    and "directories = filter (isScannedEntry (includeHidden options = Some True)) entries"
    and "i < length directories"
    and "fullPath = path_join fs rootPath (entry_name (directories ! i))"
    and "\<forall>indicator \<in> set projectIndicators. isl (access fs (path_join fs fullPath indicator))"
    and "stat fs fullPath = Inr dirStats"
    and "getProjectTags fs (createProjectId (entry_name (directories ! i))) = Inr ts"
    and "getGitStatus git fullPath = Inr (GitStatusError m)"
  shows "\<exists>results project. scanDirectory fs clock rootPath options = Inr results
           \<and> results ! i = ProjectScanResult project
           \<and> path project = fullPath \<and> lastModified project = mtime dirStats
           \<and> status project = Unknown
           \<and> (\<exists>enriched.
                 enrichProjectsWithGitInfo git clock' (filterSuccessfulScans results) = Inr enriched
                 \<and> project \<in> set enriched
                 \<and> (\<forall>q \<in> set enriched. path q = fullPath \<longrightarrow> status q = Unknown))"
proof -
  obtain results where results: "scanDirectory fs clock rootPath options = Inr results"
    "length results = length directories"
    "\<forall>j < length results. scanEntry fs (clock j) rootPath (directories ! j) = Inr (results ! j)"
    using scanDirectory_pointwise [OF assms(1-3), of clock options] assms(4) by blast
  obtain pr0 where pr0: "scanProject fs (clock i) fullPath (entry_name (directories ! i)) = Inr pr0"
    using scanProject_returns [OF assms(8,9), of "clock i"] by blast
  then obtain project where at_i: "results ! i = ProjectScanResult project"
    using scanEntry_scanned [of fs "clock i" rootPath "directories ! i" pr0] results(2,3) assms(5,6)
    by auto
  then have run_i: "scanEntry fs (clock i) rootPath (directories ! i) = Inr (ProjectScanResult project)"
    using results(2,3) assms(5) by simp
  have project: "path project = fullPath" "lastModified project = mtime dirStats"
    "status project = Unknown"
    using scanEntry_unindicated [of fs rootPath "directories ! i" "clock i" project]
      assms(6-8) run_i by auto
  let ?projects = "filterSuccessfulScans results"
  have unknown: "status pr = Unknown" if "pr \<in> set ?projects" and "path pr = fullPath" for pr
  proof -
    from that(1) have "ProjectScanResult pr \<in> set results"
      by (simp add: set_filterSuccessfulScans)
    then obtain j where j: "j < length results" "results ! j = ProjectScanResult pr"
      by (auto simp: in_set_conv_nth)
    then have run: "scanEntry fs (clock j) rootPath (directories ! j) = Inr (ProjectScanResult pr)"
      using results(3) by simp
    with scanEntry_returns [of fs "clock j" rootPath "directories ! j"] that(2)
    have same: "path_join fs rootPath (entry_name (directories ! j)) = fullPath"
      by (simp add: result_path_def)
    from scanEntry_unindicated [of fs rootPath "directories ! j" "clock j" pr] assms(7) same run
    show ?thesis
      by auto
  qed
  obtain enriched where enriched:
    "enrichProjectsWithGitInfo git clock' ?projects = Inr enriched"
    "length enriched = length ?projects"
    "\<forall>k < length ?projects. enrichProject git (clock' k) (?projects ! k) = Inr (enriched ! k)"
    using enrich_pass_pointwise [of git clock' ?projects] by blast
  have kept: "enriched ! k = ?projects ! k"
    if "k < length ?projects" and "path (?projects ! k) = fullPath" for k
  proof -
    have "enrichProject git (clock' k) (?projects ! k) = Inr (?projects ! k)"
      using that(2) assms(10) by (simp add: enrichProject_def await_def)
    with enriched(3) that(1) show ?thesis
      by simp
  qed
  have "project \<in> set ?projects"
    using at_i assms(5) results(2) by (metis nth_mem set_filterSuccessfulScans)
  then obtain k where k: "k < length ?projects" "?projects ! k = project"
    by (auto simp: in_set_conv_nth)
  then have "enriched ! k = project"
    using kept project(1) by simp
  then have member: "project \<in> set enriched"
    using k(1) enriched(2) by (metis nth_mem)
  have "status q = Unknown" if "q \<in> set enriched" and "path q = fullPath" for q
  proof -
    from that(1) obtain k where k: "k < length ?projects" "enriched ! k = q"
      using enriched(2) by (auto simp: in_set_conv_nth)
    then have "path (?projects ! k) = fullPath"
      using enriched(3) enrichProject_path that(2) by metis
    then have "q = ?projects ! k"
      using kept k by simp
    then show ?thesis
      using unknown k(1) that(2) by simp
  qed
  with results(1) at_i project enriched(1) member show ?thesis
    by blast
qed

theorem unindicated_directory_unknown_witness:
  "ex_directories = filter (isScannedEntry (includeHidden ex_options = Some True))
       [Dirent ''proj-a'' True, Dirent ''proj-b'' True, Dirent ''locked'' True,
        Dirent ''node_modules'' True, Dirent ''.config'' True, Dirent ''notes.txt'' False]
   \<and> ''/projects/proj-b'' = path_join ex_fs ''/projects'' (entry_name (ex_directories ! 1))
   \<and> list_all (\<lambda>indicator. isl (access ex_fs (path_join ex_fs ''/projects/proj-b'' indicator)))
         projectIndicators
   \<and> stat ex_fs ''/projects/proj-b'' = Inr (Stats True 1696544000000)
   \<and> getProjectTags ex_fs (createProjectId (entry_name (ex_directories ! 1))) = Inr []
   \<and> getGitStatus ex_repo_git ''/projects/proj-b'' = Inr (GitStatusError ''Not a Git repository'')
   \<and> determineInitialStatus (ex_scan_clock 1) 1696544000000 = Stale
   \<and> (\<exists>results project. scanDirectory ex_fs ex_scan_clock ''/projects'' ex_options = Inr results
         \<and> results ! 1 = ProjectScanResult project
         \<and> path project = ''/projects/proj-b'' \<and> lastModified project = 1696544000000
         \<and> status project = Unknown
         \<and> (\<exists>enriched.
               enrichProjectsWithGitInfo ex_repo_git ex_clock (filterSuccessfulScans results) = Inr enriched
               \<and> project \<in> set enriched
               \<and> map status enriched = [Active, Unknown]))"
proof -
  have h4: "ex_directories = filter (isScannedEntry (includeHidden ex_options = Some True))
       [Dirent ''proj-a'' True, Dirent ''proj-b'' True, Dirent ''locked'' True,
        Dirent ''node_modules'' True, Dirent ''.config'' True, Dirent ''notes.txt'' False]"
    by (rule ex_filter [symmetric])
  have h5: "1 < length ex_directories"
    by (simp add: ex_directories_def)
  have h6: "''/projects/proj-b'' = path_join ex_fs ''/projects'' (entry_name (ex_directories ! 1))"
    by (simp add: ex_directories_def ex_fs_fields)
  have h7: "\<forall>indicator \<in> set projectIndicators.
      isl (access ex_fs (path_join ex_fs ''/projects/proj-b'' indicator))"
    by (simp add: projectIndicators_def ex_fs_fields)
  have h7': "list_all (\<lambda>indicator. isl (access ex_fs (path_join ex_fs ''/projects/proj-b'' indicator)))
      projectIndicators"
    using h7 by (simp add: list_all_iff)
  have h8: "stat ex_fs ''/projects/proj-b'' = Inr (Stats True 1696544000000)"
    by (simp add: ex_fs_fields)
  have h9: "getProjectTags ex_fs (createProjectId (entry_name (ex_directories ! 1))) = Inr []"
    by (rule ex_tags)
  have h10: "getGitStatus ex_repo_git ''/projects/proj-b'' = Inr (GitStatusError ''Not a Git repository'')"
    by (simp add: ex_repo_status)
  have age: "determineInitialStatus (ex_scan_clock 1) 1696544000000 = Stale"
    by (simp add: determineInitialStatus_def ex_scan_clock_def msPerDay_value Let_def)
  from unindicated_directory_unknown [OF ex_root h4 h5 h6 h7 h8 h9 h10, of ex_scan_clock ex_clock]
  obtain results project enriched where
    run: "scanDirectory ex_fs ex_scan_clock ''/projects'' ex_options = Inr results"
      "results ! 1 = ProjectScanResult project"
      "path project = ''/projects/proj-b''" "lastModified project = mtime (Stats True 1696544000000)"
      "status project = Unknown"
      "enrichProjectsWithGitInfo ex_repo_git ex_clock (filterSuccessfulScans results) = Inr enriched"
      "project \<in> set enriched"
    by blast
  from run(1) have results: "results = [ProjectScanResult ex_scanned_a, ProjectScanResult ex_scanned_b,
      ProjectScanError ''Failed to scan project: EACCES: permission denied'' ''/projects/locked'']"
    by (simp add: ex_scan_run)
  with run(6) have "enriched =
      [ex_scanned_a\<lparr>gitInfo := Some (ex_info (Some 1699827200000)), status := Active\<rparr>, ex_scanned_b]"
    by (simp add: ex_scan_enrich_run)
  then have "map status enriched = [Active, Unknown]"
    by (simp add: ex_scanned_b_def)
  with run have c: "\<exists>results project. scanDirectory ex_fs ex_scan_clock ''/projects'' ex_options = Inr results
         \<and> results ! 1 = ProjectScanResult project
         \<and> path project = ''/projects/proj-b'' \<and> lastModified project = 1696544000000
         \<and> status project = Unknown
         \<and> (\<exists>enriched.
               enrichProjectsWithGitInfo ex_repo_git ex_clock (filterSuccessfulScans results) = Inr enriched
               \<and> project \<in> set enriched
               \<and> map status enriched = [Active, Unknown])"
    by auto
  show ?thesis
    by (rule conjI [OF h4 conjI [OF h6 conjI [OF h7' conjI [OF h8 conjI [OF h9 conjI [OF h10 conjI [OF age c]]]]]]])
qed

section \<open>README theorems\<close>









section \<open>Remote URL theorems\<close>

lemma getGitRemoteUrl_returns: "\<exists>r. getGitRemoteUrl git p = Inr r"
  by (auto simp: getGitRemoteUrl_def try_catch_def await_def Let_def
      split: sum.splits option.splits list.splits)

lemma getGitRemoteUrl_null_error:
  assumes "getGitRemoteUrl git p = Inr r" and "url r = None"
  shows "\<exists>msg. error' r = Some msg \<and> msg \<noteq> []"
  using assms
  by (auto simp: getGitRemoteUrl_def try_catch_def await_def Let_def
      split: sum.splits option.splits list.splits if_splits)

lemma getGitRemoteUrl_origin:
  assumes "checkIsRepo git p = Inr True" and "getRemotes git p = Inr remotes"
    and "find (\<lambda>r. remote_name r = ''origin'') remotes = Some remote" and "fetch remote \<noteq> []"
  shows "getGitRemoteUrl git p = Inr \<lparr>url = Some (normalizeRemoteUrl (fetch remote)), error' = None\<rparr>"
  using assms by (simp add: getGitRemoteUrl_def try_catch_def await_def)

lemma getGitRemoteUrl_first:
  assumes "checkIsRepo git p = Inr True" and "getRemotes git p = Inr (first # others)"
    and "\<forall>r \<in> set (first # others). remote_name r \<noteq> ''origin''" and "fetch first \<noteq> []"
  shows "getGitRemoteUrl git p = Inr \<lparr>url = Some (normalizeRemoteUrl (fetch first)), error' = None\<rparr>"
proof -
  have "find (\<lambda>r. remote_name r = ''origin'') (first # others) = None"
    using assms(3) by (simp add: find_None_iff)
  with assms(1,2,4) show ?thesis
    by (simp add: getGitRemoteUrl_def try_catch_def await_def del: find.simps)
qed

lemma getGitRemoteUrl_none:
  "checkIsRepo git p = Inr True \<Longrightarrow> getRemotes git p = Inr [] \<Longrightarrow>
   getGitRemoteUrl git p = Inr \<lparr>url = None, error' = Some ''No remote found''\<rparr>"
  "checkIsRepo git p = Inr False \<Longrightarrow>
   getGitRemoteUrl git p = Inr \<lparr>url = None, error' = Some ''Not a Git repository''\<rparr>"
  by (simp_all add: getGitRemoteUrl_def try_catch_def await_def)

lemma normalize_examples:
  "normalizeRemoteUrl ''git@github.com:owner/repo.git'' = ''https://github.com/owner/repo''"
  "normalizeRemoteUrl ''https://github.com/owner/repo.git'' = ''https://github.com/owner/repo''"
  by (simp_all add: normalizeRemoteUrl_def startsWith_def endsWith_def sshToHttps_def
      stripGitSuffix_def Let_def)

lemma stripGitSuffix_append: "stripGitSuffix (s @ ''.git'') = s"
  by (simp add: stripGitSuffix_def endsWith_def)

lemma normalize_ssh:
  assumes "host \<noteq> []" and "CHR '':'' \<notin> set host"
  shows "normalizeRemoteUrl (''git@'' @ host @ '':'' @ rest @ ''.git'') = ''https://'' @ host @ ''/'' @ rest"
proof -
  let ?s = "''git@'' @ host @ '':'' @ rest @ ''.git''"
  have p: "\<And>x. x \<in> set host \<Longrightarrow> x \<noteq> CHR '':''"
    using assms(2) by auto
  have "takeWhile (\<lambda>c. c \<noteq> CHR '':'') (host @ '':'' @ rest @ ''.git'') = host"
    using takeWhile_append2 [of host "\<lambda>c. c \<noteq> CHR '':''" "'':'' @ rest @ ''.git''"] p by simp
  moreover have "dropWhile (\<lambda>c. c \<noteq> CHR '':'') (host @ '':'' @ rest @ ''.git'') = '':'' @ rest @ ''.git''"
    using dropWhile_append2 [of host "\<lambda>c. c \<noteq> CHR '':''" "'':'' @ rest @ ''.git''"] p by simp
  ultimately have "sshToHttps ?s = (''https://'' @ host @ ''/'' @ rest) @ ''.git''"
    using assms(1) by (simp add: sshToHttps_def startsWith_def Let_def)
  then have "stripGitSuffix (sshToHttps ?s) = ''https://'' @ host @ ''/'' @ rest"
    using stripGitSuffix_append by metis
  then show ?thesis
    by (simp add: normalizeRemoteUrl_def startsWith_def)
qed

lemma normalize_https:
  "normalizeRemoteUrl (''https://'' @ rest @ ''.git'') = ''https://'' @ rest"
proof -
  have "stripGitSuffix ((''https://'' @ rest) @ ''.git'') = ''https://'' @ rest"
    by (rule stripGitSuffix_append)
  then show ?thesis
    by (simp add: normalizeRemoteUrl_def startsWith_def)
qed

text \<open>
  C8. \<open>getGitRemoteUrl\<close> always returns a value. For a repository it takes the remote
  named \<open>origin\<close>, or the first configured remote when none is named \<open>origin\<close>, and
  returns the fetch URL of that remote, normalized: \<open>git@host:path.git\<close> becomes
  \<open>https://host/path\<close> and a trailing \<open>.git\<close> is taken off an \<open>https://\<close> URL, so both
  \<open>git@github.com:owner/repo.git\<close> and \<open>https://github.com/owner/repo.git\<close> become
  \<open>https://github.com/owner/repo\<close>. When no remote is configured, or the path is not a
  repository, the URL is null; and whenever the URL is null the result carries an error
  string that is not empty.
\<close>

theorem getGitRemoteUrl_normalized:
  "(\<exists>r. getGitRemoteUrl git projectPath = Inr r)
   \<and> (checkIsRepo git projectPath = Inr True \<and> getRemotes git projectPath = Inr remotes
        \<and> find (\<lambda>r. remote_name r = ''origin'') remotes = Some remote \<and> fetch remote \<noteq> []
        \<longrightarrow> getGitRemoteUrl git projectPath =
              Inr \<lparr>url = Some (normalizeRemoteUrl (fetch remote)), error' = None\<rparr>)
   \<and> (checkIsRepo git projectPath = Inr True \<and> getRemotes git projectPath = Inr (first # others)
        \<and> (\<forall>r \<in> set (first # others). remote_name r \<noteq> ''origin'') \<and> fetch first \<noteq> []
        \<longrightarrow> getGitRemoteUrl git projectPath =
              Inr \<lparr>url = Some (normalizeRemoteUrl (fetch first)), error' = None\<rparr>)
   \<and> normalizeRemoteUrl ''git@github.com:owner/repo.git'' = ''https://github.com/owner/repo''
   \<and> normalizeRemoteUrl ''https://github.com/owner/repo.git'' = ''https://github.com/owner/repo''
   \<and> (host \<noteq> [] \<and> CHR '':'' \<notin> set host
        \<longrightarrow> normalizeRemoteUrl (''git@'' @ host @ '':'' @ rest @ ''.git'') = ''https://'' @ host @ ''/'' @ rest)
   \<and> normalizeRemoteUrl (''https://'' @ rest @ ''.git'') = ''https://'' @ rest
   \<and> (checkIsRepo git projectPath = Inr True \<and> getRemotes git projectPath = Inr []
        \<longrightarrow> getGitRemoteUrl git projectPath = Inr \<lparr>url = None, error' = Some ''No remote found''\<rparr>)
   \<and> (checkIsRepo git projectPath = Inr False
        \<longrightarrow> getGitRemoteUrl git projectPath = Inr \<lparr>url = None, error' = Some ''Not a Git repository''\<rparr>)
   \<and> (\<forall>r. getGitRemoteUrl git projectPath = Inr r \<and> url r = None
        \<longrightarrow> (\<exists>msg. error' r = Some msg \<and> msg \<noteq> []))"
  using getGitRemoteUrl_returns [of git projectPath]
    getGitRemoteUrl_origin [of git projectPath remotes remote]
    getGitRemoteUrl_first [of git projectPath first others]
    normalize_examples normalize_ssh [of host rest] normalize_https [of rest]
    getGitRemoteUrl_none [of git projectPath]
    getGitRemoteUrl_null_error [of git projectPath]
  by (intro conjI impI allI) blast+

theorem getGitRemoteUrl_normalized_witness:
  "find (\<lambda>r. remote_name r = ''origin'')
      [\<lparr>remote_name = ''upstream'', fetch = ''https://github.com/up/repo.git'',
         push = ''https://github.com/up/repo.git''\<rparr>,
       \<lparr>remote_name = ''origin'', fetch = ''git@github.com:owner/repo.git'',
         push = ''git@github.com:owner/repo.git''\<rparr>] =
     Some \<lparr>remote_name = ''origin'', fetch = ''git@github.com:owner/repo.git'',
            push = ''git@github.com:owner/repo.git''\<rparr>
   \<and> getGitRemoteUrl ex_remote_git ''/p/a'' =
       Inr \<lparr>url = Some ''https://github.com/owner/repo'', error' = None\<rparr>
   \<and> getRemotes ex_remote_git ''/p/b'' =
       Inr [\<lparr>remote_name = ''upstream'', fetch = ''https://github.com/owner/repo.git'',
              push = ''https://github.com/owner/repo.git''\<rparr>]
   \<and> getGitRemoteUrl ex_remote_git ''/p/b'' =
       Inr \<lparr>url = Some ''https://github.com/owner/repo'', error' = None\<rparr>
   \<and> getRemotes ex_remote_git ''/p/c'' = Inr []
   \<and> getGitRemoteUrl ex_remote_git ''/p/c'' = Inr \<lparr>url = None, error' = Some ''No remote found''\<rparr>
   \<and> checkIsRepo ex_gitN ''/p/c'' = Inr False
   \<and> getGitRemoteUrl ex_gitN ''/p/c'' = Inr \<lparr>url = None, error' = Some ''Not a Git repository''\<rparr>
   \<and> ''github.com'' \<noteq> [] \<and> CHR '':'' \<notin> set ''github.com''
   \<and> normalizeRemoteUrl (''git@'' @ ''github.com'' @ '':'' @ ''owner/repo'' @ ''.git'') =
       ''https://'' @ ''github.com'' @ ''/'' @ ''owner/repo''"
proof -
  let ?up = "\<lparr>remote_name = ''upstream'', fetch = ''https://github.com/up/repo.git'',
         push = ''https://github.com/up/repo.git''\<rparr>"
  let ?origin = "\<lparr>remote_name = ''origin'', fetch = ''git@github.com:owner/repo.git'',
         push = ''git@github.com:owner/repo.git''\<rparr>"
  let ?only = "\<lparr>remote_name = ''upstream'', fetch = ''https://github.com/owner/repo.git'',
         push = ''https://github.com/owner/repo.git''\<rparr>"
  have repo: "checkIsRepo ex_remote_git p = Inr True" for p
    by (simp add: ex_remote_git_def ex_git_def)
  have ra: "getRemotes ex_remote_git ''/p/a'' = Inr [?up, ?origin]"
    by (simp add: ex_remote_git_def)
  have rb: "getRemotes ex_remote_git ''/p/b'' = Inr [?only]"
    by (simp add: ex_remote_git_def)
  have rc: "getRemotes ex_remote_git ''/p/c'' = Inr []"
    by (simp add: ex_remote_git_def)
  have fa: "find (\<lambda>r. remote_name r = ''origin'') [?up, ?origin] = Some ?origin"
    by simp
  have na: "fetch ?origin \<noteq> []" "fetch ?only \<noteq> []"
    by simp_all
  have nb: "\<forall>r \<in> set [?only]. remote_name r \<noteq> ''origin''"
    by simp
  have nr: "checkIsRepo ex_gitN ''/p/c'' = Inr False"
    by (simp add: ex_gitN_def ex_git_def)
  have hs: "''github.com'' \<noteq> []" "CHR '':'' \<notin> set ''github.com''"
    by simp_all
  have a: "getGitRemoteUrl ex_remote_git ''/p/a'' =
      Inr \<lparr>url = Some (normalizeRemoteUrl (fetch ?origin)), error' = None\<rparr>"
    using getGitRemoteUrl_normalized [of ex_remote_git "''/p/a''" "[?up, ?origin]" ?origin]
      repo ra fa na(1) by blast
  have b: "getGitRemoteUrl ex_remote_git ''/p/b'' =
      Inr \<lparr>url = Some (normalizeRemoteUrl (fetch ?only)), error' = None\<rparr>"
    using getGitRemoteUrl_normalized [of ex_remote_git "''/p/b''" _ _ ?only "[]"]
      repo rb nb na(2) by blast
  have c: "getGitRemoteUrl ex_remote_git ''/p/c'' = Inr \<lparr>url = None, error' = Some ''No remote found''\<rparr>"
    using getGitRemoteUrl_normalized [of ex_remote_git "''/p/c''"] repo rc by blast
  have d: "getGitRemoteUrl ex_gitN ''/p/c'' = Inr \<lparr>url = None, error' = Some ''Not a Git repository''\<rparr>"
    using getGitRemoteUrl_normalized [of ex_gitN "''/p/c''"] nr by blast
  have e: "normalizeRemoteUrl (''git@'' @ ''github.com'' @ '':'' @ ''owner/repo'' @ ''.git'') =
       ''https://'' @ ''github.com'' @ ''/'' @ ''owner/repo''"
    using getGitRemoteUrl_normalized [where host = "''github.com''" and rest = "''owner/repo''"] hs
    by blast
  have a': "getGitRemoteUrl ex_remote_git ''/p/a'' =
      Inr \<lparr>url = Some ''https://github.com/owner/repo'', error' = None\<rparr>"
    using a by (simp add: normalize_examples)
  have b': "getGitRemoteUrl ex_remote_git ''/p/b'' =
      Inr \<lparr>url = Some ''https://github.com/owner/repo'', error' = None\<rparr>"
    using b by (simp add: normalize_examples)
  show ?thesis
    by (rule conjI [OF fa conjI [OF a' conjI [OF rb conjI [OF b' conjI [OF rc conjI [OF c
          conjI [OF nr conjI [OF d conjI [OF hs(1) conjI [OF hs(2) e]]]]]]]]]])
qed

end
